theory Spec2Isabelle
  imports Main "HOL-Library.Word"
begin

unbundle bit_operations_syntax

section \<open>The kernel shadow-interface bridge of dperf (src/kni.c)\<close>

text \<open>
  The file kni.c keeps one kernel-visible shadow interface (a DPDK KNI device) per
  physical port and moves packets between the poll-mode fast path and that interface.
  Everything it does beyond plain control flow is a call into DPDK, libc or another
  module of dperf. The embedding makes these calls explicit: every call is recorded,
  with its arguments and its answer, as an \<open>event\<close> appended to a chronological log,
  and the answers come from an \<open>env\<close> of oracles that may depend on the whole log so
  far. The theorems below hold for every such environment.
\<close>

subsection \<open>Data\<close>

type_synonym mbuf = nat       \<comment> \<open>a non-null \<open>struct rte_mbuf *\<close>, opaque\<close>
type_synonym mempool = nat    \<comment> \<open>a \<open>struct rte_mempool *\<close>, opaque\<close>
type_synonym ether_addr = "8 word list"

text \<open>The fields of \<open>struct rte_kni_conf\<close> that kni.c writes; \<open>memset\<close> zeroes the rest.\<close>

record rte_kni_conf =
  name :: string
  group_id :: "16 word"
  mbuf_size :: nat
  mac_addr :: ether_addr
  mtu :: "16 word"
  min_mtu :: "16 word"
  max_mtu :: "16 word"

text \<open>The two fields of \<open>struct rte_eth_dev_info\<close> that kni.c reads.\<close>

record rte_eth_dev_info =
  di_min_mtu :: "16 word"
  di_max_mtu :: "16 word"

text \<open>
  A \<open>struct rte_kni *\<close> that is not NULL. The handle is opaque to kni.c; it is
  represented by what \<open>rte_kni_alloc\<close> was given to build it from. A pointer that may be
  NULL is an \<open>option\<close>.
\<close>

record rte_kni =
  kni_conf :: rte_kni_conf
  kni_pool :: mempool

text \<open>
  \<open>struct netif_port\<close>: the hardware id (\<open>port->id\<close>, read into a \<open>uint16_t\<close>), the
  per-queue buffer pools (a fixed-size array, hence total in its index) and the attached
  shadow-interface handle.
\<close>

record netif_port =
  port_id :: "16 word"
  mbuf_pool :: "nat \<Rightarrow> mempool"
  kni :: "rte_kni option"

text \<open>
  \<open>struct config\<close>: the enable flag \<open>cfg->kni\<close>, the name prefix and the configured
  ports \<open>cfg->ports[0 .. port_num - 1]\<close> in their order. A \<open>struct netif_port *\<close> into
  that array is a position in the list.
\<close>

record config =
  cfg_kni :: bool
  kni_ifname :: string
  ports :: "netif_port list"

text \<open>\<open>struct work_space\<close>: only \<open>ws->port\<close> is used here.\<close>

record work_space =
  ws_port :: netif_port

text \<open>
  Constants that kni.c takes from headers which are not part of the file; they are
  parameters of the model.
\<close>

record macros =
  RTE_KNI_NAMESIZE :: nat
  NB_RXD :: nat
  NETIF_PORT_MAX :: nat

definition RTE_MBUF_DEFAULT_DATAROOM :: nat where
  "RTE_MBUF_DEFAULT_DATAROOM = 2048"

definition IFF_UP :: "16 word" where
  "IFF_UP = 1"

subsection \<open>External calls\<close>

text \<open>One constructor per external function; the last argument is what the call answered.\<close>

datatype event =
    Ev_rte_eth_dev_info_get "16 word" "int \<times> rte_eth_dev_info"
  | Ev_rte_eth_dev_get_mtu "16 word" "int \<times> 16 word option"
  | Ev_rte_eth_macaddr_get "16 word" "int \<times> ether_addr"
  | Ev_rte_kni_init nat
  | Ev_rte_kni_alloc mempool rte_kni_conf bool
  | Ev_rte_kni_release rte_kni int
  | Ev_rte_kni_tx_burst rte_kni mbuf nat
  | Ev_rte_kni_handle_request "rte_kni option" int
  | Ev_rte_kni_rx_burst "rte_kni option" nat "mbuf list"
  | Ev_mbuf_free mbuf
  | Ev_net_stats_drop
  | Ev_net_stats_kni_rx
  | Ev_net_stats_kni_tx
  | Ev_work_space_tx_send mbuf
  | Ev_socket int
  | Ev_ioctl_SIOCGIFFLAGS int string "int \<times> 16 word"
  | Ev_ioctl_SIOCSIFFLAGS int string "16 word" int
  | Ev_close int int
  | Ev_printf string

type_synonym trace = "event list"

text \<open>
  The environment answers each call from the log so far and the arguments.
  \<^item> \<open>rte_eth_dev_info_get\<close>: return code and the device info it filled in.
  \<^item> \<open>rte_eth_dev_get_mtu\<close>: return code and the value stored through the pointer, if
    it stored one.
  \<^item> \<open>rte_eth_macaddr_get\<close>: return code and the address it filled in.
  \<^item> \<open>rte_kni_alloc\<close>: whether a handle was built (otherwise NULL).
  \<^item> \<open>rte_kni_release\<close>, \<open>rte_kni_handle_request\<close>, \<open>socket\<close>, \<open>close\<close> and the
    flag-setting \<open>ioctl\<close>: the return code.
  \<^item> \<open>rte_kni_tx_burst\<close>: the number of buffers taken.
  \<^item> \<open>rte_kni_rx_burst\<close>: the buffers stored into the array; their number is the
    return value.
  \<^item> the flag-reading \<open>ioctl\<close>: return code and the flags read.
\<close>

record env =
  rte_eth_dev_info_get :: "trace \<Rightarrow> 16 word \<Rightarrow> int \<times> rte_eth_dev_info"
  rte_eth_dev_get_mtu :: "trace \<Rightarrow> 16 word \<Rightarrow> int \<times> 16 word option"
  rte_eth_macaddr_get :: "trace \<Rightarrow> 16 word \<Rightarrow> int \<times> ether_addr"
  rte_kni_alloc :: "trace \<Rightarrow> mempool \<Rightarrow> rte_kni_conf \<Rightarrow> bool"
  rte_kni_release :: "trace \<Rightarrow> rte_kni \<Rightarrow> int"
  rte_kni_tx_burst :: "trace \<Rightarrow> rte_kni \<Rightarrow> mbuf \<Rightarrow> nat"
  rte_kni_handle_request :: "trace \<Rightarrow> rte_kni option \<Rightarrow> int"
  rte_kni_rx_burst :: "trace \<Rightarrow> rte_kni option \<Rightarrow> nat \<Rightarrow> mbuf list"
  socket :: "trace \<Rightarrow> int"
  ioctl_SIOCGIFFLAGS :: "trace \<Rightarrow> int \<Rightarrow> string \<Rightarrow> int \<times> 16 word"
  ioctl_SIOCSIFFLAGS :: "trace \<Rightarrow> int \<Rightarrow> string \<Rightarrow> 16 word \<Rightarrow> int"
  close :: "trace \<Rightarrow> int \<Rightarrow> int"

subsection \<open>Naming: \<open>kni_set_name\<close>\<close>

text \<open>The conversion \<open>%d\<close> of \<open>snprintf\<close>: decimal digits, a minus sign when negative.\<close>

definition digit_char :: "nat \<Rightarrow> char" where
  "digit_char d = ''0123456789'' ! d"

fun dec_digits :: "nat \<Rightarrow> string" where
  "dec_digits n =
     (if n < 10 then [digit_char n] else dec_digits (n div 10) @ [digit_char (n mod 10)])"

declare dec_digits.simps [simp del]

definition fmt_d :: "int \<Rightarrow> string" where
  "fmt_d i = (if i < 0 then CHR ''-'' # dec_digits (nat (- i)) else dec_digits (nat i))"

text \<open>
  \<open>snprintf(name, sz, "%s%d", s, idx)\<close> into a zeroed buffer: at most \<open>sz - 1\<close>
  characters of the formatted text are stored, the rest is dropped.
\<close>

definition snprintf_s_d :: "nat \<Rightarrow> string \<Rightarrow> int \<Rightarrow> string" where
  "snprintf_s_d sz s idx = take (sz - 1) (s @ fmt_d idx)"

text \<open>
  \<open>kni_set_name(cfg, port, name)\<close>: \<open>idx = port - &(cfg->ports[0])\<close> is the position of
  the port in the configured list; \<open>port->id\<close> is not used.
\<close>

definition kni_set_name :: "macros \<Rightarrow> config \<Rightarrow> nat \<Rightarrow> string" where
  "kni_set_name M cfg pos =
     (let idx = int pos in snprintf_s_d (RTE_KNI_NAMESIZE M) (kni_ifname cfg) idx)"

subsection \<open>Building a handle: \<open>kni_set_mtu\<close>, \<open>kni_set_mac\<close>, \<open>kni_alloc\<close>\<close>

text \<open>\<open>memset(&conf, 0, sizeof(conf))\<close>.\<close>

definition conf_zero :: rte_kni_conf where
  "conf_zero =
     \<lparr>name = [], group_id = 0, mbuf_size = 0, mac_addr = replicate 6 0,
      mtu = 0, min_mtu = 0, max_mtu = 0\<rparr>"

text \<open>
  \<open>kni_set_mtu\<close>: a failed \<open>rte_eth_dev_info_get\<close> returns \<open>-1\<close>; the return code of
  \<open>rte_eth_dev_get_mtu\<close> is not looked at, \<open>conf->mtu\<close> is whatever the call stored.
\<close>

definition kni_set_mtu :: "env \<Rightarrow> 16 word \<Rightarrow> rte_kni_conf \<Rightarrow> trace \<Rightarrow> int \<times> rte_kni_conf \<times> trace" where
  "kni_set_mtu E pid conf tr =
     (let r = rte_eth_dev_info_get E tr pid;
          tr1 = tr @ [Ev_rte_eth_dev_info_get pid r]
      in if fst r \<noteq> 0 then (- 1, conf, tr1)
         else
           let conf1 = conf\<lparr>min_mtu := di_min_mtu (snd r)\<rparr>;
               conf2 = conf1\<lparr>max_mtu := di_max_mtu (snd r)\<rparr>;
               g = rte_eth_dev_get_mtu E tr1 pid;
               tr2 = tr1 @ [Ev_rte_eth_dev_get_mtu pid g];
               conf3 = (case snd g of None \<Rightarrow> conf2 | Some v \<Rightarrow> conf2\<lparr>mtu := v\<rparr>)
           in (0, conf3, tr2))"

definition kni_set_mac :: "env \<Rightarrow> 16 word \<Rightarrow> rte_kni_conf \<Rightarrow> trace \<Rightarrow> int \<times> rte_kni_conf \<times> trace" where
  "kni_set_mac E pid conf tr =
     (let r = rte_eth_macaddr_get E tr pid;
          tr1 = tr @ [Ev_rte_eth_macaddr_get pid r];
          conf1 = conf\<lparr>mac_addr := snd r\<rparr>
      in if fst r \<noteq> 0 then (- 1, conf1, tr1) else (0, conf1, tr1))"

text \<open>
  \<open>kni_alloc(cfg, port)\<close> for the port \<open>p\<close> at position \<open>pos\<close> of the configured list.
  The result is the handle, or \<open>None\<close> for NULL.
\<close>

definition kni_alloc :: "env \<Rightarrow> macros \<Rightarrow> config \<Rightarrow> nat \<Rightarrow> netif_port \<Rightarrow> trace \<Rightarrow> rte_kni option \<times> trace" where
  "kni_alloc E M cfg pos p tr =
     (let pool = mbuf_pool p 0;
          pid = port_id p;
          conf = conf_zero;
          conf = conf\<lparr>group_id := pid\<rparr>;
          conf = conf\<lparr>mbuf_size := RTE_MBUF_DEFAULT_DATAROOM\<rparr>;
          conf = conf\<lparr>name := kni_set_name M cfg pos\<rparr>;
          (r1, conf, tr) = kni_set_mtu E pid conf tr
      in if r1 < 0 then (None, tr)
         else
           let (r2, conf, tr) = kni_set_mac E pid conf tr
           in if r2 < 0 then (None, tr)
              else
                let ok = rte_kni_alloc E tr pool conf;
                    tr = tr @ [Ev_rte_kni_alloc pool conf ok]
                in (if ok then Some \<lparr>kni_conf = conf, kni_pool = pool\<rparr> else None, tr))"

subsection \<open>Lifecycle: \<open>kni_create\<close>, \<open>kni_start\<close>, \<open>kni_free\<close>, \<open>kni_stop\<close>\<close>

text \<open>
  Modelled from the spec: \<open>config_for_each_port\<close> (config.h, not part of kni.c) visits
  the configured ports in list order. Each loop over it is a recursion over the ports
  still to visit, together with the position of the first of them.
\<close>

fun kni_create_loop :: "env \<Rightarrow> macros \<Rightarrow> config \<Rightarrow> nat \<Rightarrow> netif_port list \<Rightarrow> trace \<Rightarrow> int \<times> netif_port list \<times> trace" where
  "kni_create_loop E M cfg pos [] tr = (0, [], tr)"
| "kni_create_loop E M cfg pos (p # ps) tr =
     (case kni_alloc E M cfg pos p tr of
        (None, tr1) \<Rightarrow> (- 1, p # ps, tr1)
      | (Some k, tr1) \<Rightarrow>
          (case kni_create_loop E M cfg (Suc pos) ps tr1 of
             (r, ps', tr2) \<Rightarrow> (r, p\<lparr>kni := Some k\<rparr> # ps', tr2)))"

definition kni_create :: "env \<Rightarrow> macros \<Rightarrow> config \<Rightarrow> trace \<Rightarrow> int \<times> config \<times> trace" where
  "kni_create E M cfg tr =
     (let tr1 = tr @ [Ev_rte_kni_init (NETIF_PORT_MAX M)];
          (r, ps', tr2) = kni_create_loop E M cfg 0 (ports cfg) tr1
      in (r, cfg\<lparr>ports := ps'\<rparr>, tr2))"

definition kni_start :: "env \<Rightarrow> macros \<Rightarrow> config \<Rightarrow> trace \<Rightarrow> int \<times> config \<times> trace" where
  "kni_start E M cfg tr = (if \<not> cfg_kni cfg then (0, cfg, tr) else kni_create E M cfg tr)"

fun kni_free_loop :: "env \<Rightarrow> netif_port list \<Rightarrow> trace \<Rightarrow> netif_port list \<times> trace" where
  "kni_free_loop E [] tr = ([], tr)"
| "kni_free_loop E (p # ps) tr =
     (case kni p of
        None \<Rightarrow> (case kni_free_loop E ps tr of (ps', tr') \<Rightarrow> (p # ps', tr'))
      | Some k \<Rightarrow>
          let r = rte_kni_release E tr k;
              tr1 = tr @ [Ev_rte_kni_release k r];
              tr2 = (if r \<noteq> 0 then tr1 @ [Ev_printf ''failed to free kni\<newline>''] else tr1)
          in (case kni_free_loop E ps tr2 of (ps', tr') \<Rightarrow> (p\<lparr>kni := None\<rparr> # ps', tr')))"

definition kni_free :: "env \<Rightarrow> config \<Rightarrow> trace \<Rightarrow> config \<times> trace" where
  "kni_free E cfg tr =
     (case kni_free_loop E (ports cfg) tr of (ps', tr') \<Rightarrow> (cfg\<lparr>ports := ps'\<rparr>, tr'))"

definition kni_stop :: "env \<Rightarrow> config \<Rightarrow> trace \<Rightarrow> config \<times> trace" where
  "kni_stop E cfg tr = (if cfg_kni cfg then kni_free E cfg tr else (cfg, tr))"

subsection \<open>Link activation: \<open>kni_set_link_up\<close>, \<open>kni_link_up\<close>\<close>

definition kni_set_link_up :: "env \<Rightarrow> macros \<Rightarrow> config \<Rightarrow> nat \<Rightarrow> netif_port \<Rightarrow> trace \<Rightarrow> int \<times> trace" where
  "kni_set_link_up E M cfg pos p tr =
     (if kni p = None then (0, tr)
      else
        let fd = socket E tr;
            tr1 = tr @ [Ev_socket fd]
        in if fd < 0 then (- 1, tr1)
           else
             let ifr_name = kni_set_name M cfg pos;
                 g = ioctl_SIOCGIFFLAGS E tr1 fd ifr_name;
                 tr2 = tr1 @ [Ev_ioctl_SIOCGIFFLAGS fd ifr_name g];
                 (ret, tr5) =
                   (if fst g < 0 then (- 1, tr2 @ [Ev_printf ''kni get flags error\<newline>''])
                    else
                      let ifr_flags = snd g OR IFF_UP;
                          s = ioctl_SIOCSIFFLAGS E tr2 fd ifr_name ifr_flags;
                          tr3 = tr2 @ [Ev_ioctl_SIOCSIFFLAGS fd ifr_name ifr_flags s]
                      in if s < 0 then (- 1, tr3 @ [Ev_printf ''kni set flags error\<newline>''])
                         else (0, tr3));
                 c = close E tr5 fd
             in (ret, tr5 @ [Ev_close fd c]))"

fun kni_link_up_loop :: "env \<Rightarrow> macros \<Rightarrow> config \<Rightarrow> nat \<Rightarrow> netif_port list \<Rightarrow> trace \<Rightarrow> int \<times> trace" where
  "kni_link_up_loop E M cfg pos [] tr = (0, tr)"
| "kni_link_up_loop E M cfg pos (p # ps) tr =
     (case kni_set_link_up E M cfg pos p tr of
        (r, tr1) \<Rightarrow> if r < 0 then (- 1, tr1) else kni_link_up_loop E M cfg (Suc pos) ps tr1)"

definition kni_link_up :: "env \<Rightarrow> macros \<Rightarrow> config \<Rightarrow> trace \<Rightarrow> int \<times> trace" where
  "kni_link_up E M cfg tr = kni_link_up_loop E M cfg 0 (ports cfg) tr"

subsection \<open>The packet bridge: \<open>kni_recv\<close>, \<open>kni_send\<close>\<close>

text \<open>
  Modelled from the spec: \<open>mbuf_free2\<close> (mbuf.h, not part of kni.c) releases the buffer
  back to its pool and increments the drop counter.
\<close>

definition mbuf_free2 :: "mbuf \<Rightarrow> trace \<Rightarrow> trace" where
  "mbuf_free2 m tr = tr @ [Ev_mbuf_free m, Ev_net_stats_drop]"

definition kni_recv :: "env \<Rightarrow> work_space \<Rightarrow> mbuf \<Rightarrow> trace \<Rightarrow> trace" where
  "kni_recv E ws m tr =
     (let port = ws_port ws in
      case kni port of
        Some k \<Rightarrow>
          let n = rte_kni_tx_burst E tr k m;
              tr1 = tr @ [Ev_rte_kni_tx_burst k m n]
          in if n = 1 then tr1 @ [Ev_net_stats_kni_rx] else mbuf_free2 m tr1
      | None \<Rightarrow> mbuf_free2 m tr)"

text \<open>The body of the \<open>for\<close> loop of \<open>kni_send\<close>, once per buffer that was drained.\<close>

fun kni_send_loop :: "mbuf list \<Rightarrow> trace \<Rightarrow> trace" where
  "kni_send_loop [] tr = tr"
| "kni_send_loop (m # ms) tr =
     kni_send_loop ms (tr @ [Ev_work_space_tx_send m, Ev_net_stats_kni_tx])"

definition kni_send :: "env \<Rightarrow> macros \<Rightarrow> work_space \<Rightarrow> trace \<Rightarrow> trace" where
  "kni_send E M ws tr =
     (let port = ws_port ws;
          k = kni port;
          h = rte_kni_handle_request E tr k;
          tr1 = tr @ [Ev_rte_kni_handle_request k h];
          mbufs = rte_kni_rx_burst E tr1 k (NB_RXD M);
          tr2 = tr1 @ [Ev_rte_kni_rx_burst k (NB_RXD M) mbufs]
      in kni_send_loop mbufs tr2)"

section \<open>Reading the log\<close>

text \<open>
  The configuration that \<open>kni_alloc\<close> hands to \<open>rte_kni_alloc\<close>, given the answers of
  the three hardware queries.
\<close>

definition built_conf :: "macros \<Rightarrow> config \<Rightarrow> nat \<Rightarrow> netif_port \<Rightarrow> int \<times> rte_eth_dev_info \<Rightarrow> int \<times> 16 word option \<Rightarrow> int \<times> ether_addr \<Rightarrow> rte_kni_conf" where
  "built_conf M cfg pos p r g m =
     \<lparr>name = kni_set_name M cfg pos, group_id = port_id p,
      mbuf_size = RTE_MBUF_DEFAULT_DATAROOM, mac_addr = snd m,
      mtu = (case snd g of None \<Rightarrow> 0 | Some v \<Rightarrow> v),
      min_mtu = di_min_mtu (snd r), max_mtu = di_max_mtu (snd r)\<rparr>"

text \<open>
  The answers that make \<open>kni_alloc\<close> give up: a failed device-info query, a failed MAC
  query, a refused allocation. A failed \<open>rte_eth_dev_get_mtu\<close> is not among them.
\<close>

definition start_failure :: "event \<Rightarrow> bool" where
  "start_failure e =
     (case e of
        Ev_rte_eth_dev_info_get pid r \<Rightarrow> fst r \<noteq> 0
      | Ev_rte_eth_macaddr_get pid r \<Rightarrow> fst r \<noteq> 0
      | Ev_rte_kni_alloc pool conf ok \<Rightarrow> \<not> ok
      | _ \<Rightarrow> False)"

text \<open>The hardware id of the port a creation-time call is about.\<close>

definition event_port :: "event \<Rightarrow> 16 word option" where
  "event_port e =
     (case e of
        Ev_rte_eth_dev_info_get pid r \<Rightarrow> Some pid
      | Ev_rte_eth_dev_get_mtu pid r \<Rightarrow> Some pid
      | Ev_rte_eth_macaddr_get pid r \<Rightarrow> Some pid
      | Ev_rte_kni_alloc pool conf ok \<Rightarrow> Some (group_id conf)
      | _ \<Rightarrow> None)"

text \<open>What one release attempt leaves in the log: the call, and the message when it failed.\<close>

definition release_events :: "rte_kni \<Rightarrow> int \<Rightarrow> event list" where
  "release_events k r =
     Ev_rte_kni_release k r # (if r \<noteq> 0 then [Ev_printf ''failed to free kni\<newline>''] else [])"

text \<open>The descriptor a \<open>socket\<close> call opened, and the descriptor a \<open>close\<close> call closed.\<close>

definition opened :: "event \<Rightarrow> int option" where
  "opened e = (case e of Ev_socket fd \<Rightarrow> if 0 \<le> fd then Some fd else None | _ \<Rightarrow> None)"

definition closed :: "event \<Rightarrow> int option" where
  "closed e = (case e of Ev_close fd c \<Rightarrow> Some fd | _ \<Rightarrow> None)"

text \<open>
  An event of the log is answered by the environment \<open>E\<close> after the log \<open>h\<close> when the
  answer it records is the one \<open>E\<close> gives to that call after \<open>h\<close>. A list of events is an
  honest continuation of \<open>h\<close> when each of its events is answered by \<open>E\<close> after \<open>h\<close> and
  the events before it.
\<close>

definition answered :: "env \<Rightarrow> trace \<Rightarrow> event \<Rightarrow> bool" where
  "answered E h e =
     (case e of
        Ev_rte_eth_dev_info_get pid r \<Rightarrow> r = rte_eth_dev_info_get E h pid
      | Ev_rte_eth_dev_get_mtu pid g \<Rightarrow> g = rte_eth_dev_get_mtu E h pid
      | Ev_rte_eth_macaddr_get pid m \<Rightarrow> m = rte_eth_macaddr_get E h pid
      | Ev_rte_kni_init n \<Rightarrow> True
      | Ev_rte_kni_alloc pool conf ok \<Rightarrow> ok = rte_kni_alloc E h pool conf
      | Ev_rte_kni_release k r \<Rightarrow> r = rte_kni_release E h k
      | Ev_rte_kni_tx_burst k m n \<Rightarrow> n = rte_kni_tx_burst E h k m
      | Ev_rte_kni_handle_request k r \<Rightarrow> r = rte_kni_handle_request E h k
      | Ev_rte_kni_rx_burst k n ms \<Rightarrow> ms = rte_kni_rx_burst E h k n
      | Ev_mbuf_free m \<Rightarrow> True
      | Ev_net_stats_drop \<Rightarrow> True
      | Ev_net_stats_kni_rx \<Rightarrow> True
      | Ev_net_stats_kni_tx \<Rightarrow> True
      | Ev_work_space_tx_send m \<Rightarrow> True
      | Ev_socket fd \<Rightarrow> fd = socket E h
      | Ev_ioctl_SIOCGIFFLAGS fd nm g \<Rightarrow> g = ioctl_SIOCGIFFLAGS E h fd nm
      | Ev_ioctl_SIOCSIFFLAGS fd nm fl r \<Rightarrow> r = ioctl_SIOCSIFFLAGS E h fd nm fl
      | Ev_close fd c \<Rightarrow> c = close E h fd
      | Ev_printf msg \<Rightarrow> True)"

fun honest :: "env \<Rightarrow> trace \<Rightarrow> event list \<Rightarrow> bool" where
  "honest E h [] = True"
| "honest E h (e # es) = (answered E h e \<and> honest E (h @ [e]) es)"

text \<open>
  The runs of the creation loop, as a relation between the ports still to visit (from
  position \<open>pos\<close>), the calls made, the result and the ports afterwards. A port is either
  given a handle built from its own answers, after which the run goes on, or the run ends
  at its first failing call and leaves this port and all later ones as they were. The
  answer of \<open>rte_eth_dev_get_mtu\<close> is free in every rule.
\<close>

inductive create_run :: "macros \<Rightarrow> config \<Rightarrow> nat \<Rightarrow> netif_port list \<Rightarrow> event list \<Rightarrow> int \<Rightarrow> netif_port list \<Rightarrow> bool"
  for M :: macros and cfg :: config where
  cr_done: "create_run M cfg pos [] [] 0 []"
| cr_info: "ri \<noteq> 0 \<Longrightarrow>
    create_run M cfg pos (p # ps) [Ev_rte_eth_dev_info_get (port_id p) (ri, info)] (- 1) (p # ps)"
| cr_mac: "mi \<noteq> 0 \<Longrightarrow>
    create_run M cfg pos (p # ps)
      [Ev_rte_eth_dev_info_get (port_id p) (0, info), Ev_rte_eth_dev_get_mtu (port_id p) g,
       Ev_rte_eth_macaddr_get (port_id p) (mi, mac)] (- 1) (p # ps)"
| cr_alloc: "conf = built_conf M cfg pos p (0, info) g (0, mac) \<Longrightarrow>
    create_run M cfg pos (p # ps)
      [Ev_rte_eth_dev_info_get (port_id p) (0, info), Ev_rte_eth_dev_get_mtu (port_id p) g,
       Ev_rte_eth_macaddr_get (port_id p) (0, mac), Ev_rte_kni_alloc (mbuf_pool p 0) conf False]
      (- 1) (p # ps)"
| cr_step: "conf = built_conf M cfg pos p (0, info) g (0, mac) \<Longrightarrow>
    create_run M cfg (Suc pos) ps evs res ps' \<Longrightarrow>
    create_run M cfg pos (p # ps)
      ([Ev_rte_eth_dev_info_get (port_id p) (0, info), Ev_rte_eth_dev_get_mtu (port_id p) g,
        Ev_rte_eth_macaddr_get (port_id p) (0, mac), Ev_rte_kni_alloc (mbuf_pool p 0) conf True]
       @ evs)
      res (p\<lparr>kni := Some \<lparr>kni_conf = conf, kni_pool = mbuf_pool p 0\<rparr>\<rparr> # ps')"

text \<open>
  The runs of link activation, in the words of its description: a port without a handle
  is passed over; for a port with a handle a channel is opened, the flags are read, the
  flags with \<open>IFF_UP\<close> set are written back under the same name, and the channel is
  closed; the run ends with \<open>-1\<close> at the first port whose \<open>socket\<close> or either \<open>ioctl\<close>
  fails, and with \<open>0\<close> after the last port otherwise. The answer \<open>c\<close> of \<open>close\<close> is
  free in every rule.
\<close>

inductive link_up_run :: "macros \<Rightarrow> config \<Rightarrow> nat \<Rightarrow> netif_port list \<Rightarrow> event list \<Rightarrow> int \<Rightarrow> bool"
  for M :: macros and cfg :: config where
  lu_done: "link_up_run M cfg pos [] [] 0"
| lu_skip: "kni p = None \<Longrightarrow> link_up_run M cfg (Suc pos) ps evs r \<Longrightarrow>
    link_up_run M cfg pos (p # ps) evs r"
| lu_socket: "kni p \<noteq> None \<Longrightarrow> fd < 0 \<Longrightarrow>
    link_up_run M cfg pos (p # ps) [Ev_socket fd] (- 1)"
| lu_get: "kni p \<noteq> None \<Longrightarrow> 0 \<le> fd \<Longrightarrow> ret < 0 \<Longrightarrow>
    link_up_run M cfg pos (p # ps)
      [Ev_socket fd, Ev_ioctl_SIOCGIFFLAGS fd (kni_set_name M cfg pos) (ret, flags),
       Ev_printf ''kni get flags error\<newline>'', Ev_close fd c] (- 1)"
| lu_set: "kni p \<noteq> None \<Longrightarrow> 0 \<le> fd \<Longrightarrow> 0 \<le> ret \<Longrightarrow> s < 0 \<Longrightarrow>
    link_up_run M cfg pos (p # ps)
      [Ev_socket fd, Ev_ioctl_SIOCGIFFLAGS fd (kni_set_name M cfg pos) (ret, flags),
       Ev_ioctl_SIOCSIFFLAGS fd (kni_set_name M cfg pos) (flags OR IFF_UP) s,
       Ev_printf ''kni set flags error\<newline>'', Ev_close fd c] (- 1)"
| lu_up: "kni p \<noteq> None \<Longrightarrow> 0 \<le> fd \<Longrightarrow> 0 \<le> ret \<Longrightarrow> 0 \<le> s \<Longrightarrow>
    link_up_run M cfg (Suc pos) ps evs r \<Longrightarrow>
    link_up_run M cfg pos (p # ps)
      ([Ev_socket fd, Ev_ioctl_SIOCGIFFLAGS fd (kni_set_name M cfg pos) (ret, flags),
        Ev_ioctl_SIOCSIFFLAGS fd (kni_set_name M cfg pos) (flags OR IFF_UP) s,
        Ev_close fd c] @ evs) r"

code_pred create_run .

code_pred link_up_run .

section \<open>Concrete scenarios\<close>

text \<open>
  Small environments and configurations on which the properties are exercised: name
  buffers of 16 bytes, batches of two buffers, two ports with the hardware ids 5 and 2.
\<close>

definition M16 :: macros where
  "M16 = \<lparr>RTE_KNI_NAMESIZE = 16, NB_RXD = 2, NETIF_PORT_MAX = 4\<rparr>"

text \<open>Every call succeeds; three buffers wait in the kernel queue of each handle.\<close>

definition E_ok :: env where
  "E_ok =
     \<lparr>rte_eth_dev_info_get = (\<lambda>tr pid. (0, \<lparr>di_min_mtu = 68, di_max_mtu = 9000\<rparr>)),
      rte_eth_dev_get_mtu = (\<lambda>tr pid. (0, Some 1500)),
      rte_eth_macaddr_get = (\<lambda>tr pid. (0, [2, 0, 0, 0, 0, 1])),
      rte_kni_alloc = (\<lambda>tr pool conf. True),
      rte_kni_release = (\<lambda>tr k. 0),
      rte_kni_tx_burst = (\<lambda>tr k m. 1),
      rte_kni_handle_request = (\<lambda>tr k. case k of None \<Rightarrow> - 1 | Some h \<Rightarrow> 0),
      rte_kni_rx_burst = (\<lambda>tr k n. case k of None \<Rightarrow> [] | Some h \<Rightarrow> take n [21, 22, 23]),
      socket = (\<lambda>tr. 3),
      ioctl_SIOCGIFFLAGS = (\<lambda>tr fd nm. (0, 0x1002)),
      ioctl_SIOCSIFFLAGS = (\<lambda>tr fd nm fl. 0),
      close = (\<lambda>tr fd. 0)\<rparr>"

text \<open>The current-MTU query fails and stores nothing.\<close>

definition E_mtu_fails :: env where
  "E_mtu_fails = E_ok\<lparr>rte_eth_dev_get_mtu := (\<lambda>tr pid. (- 19, None))\<rparr>"

text \<open>The MAC query fails for the port with hardware id 2.\<close>

definition E_mac_fails :: env where
  "E_mac_fails =
     E_ok\<lparr>rte_eth_macaddr_get :=
            (\<lambda>tr pid. if pid = 2 then (- 19, replicate 6 0) else (0, [2, 0, 0, 0, 0, 1]))\<rparr>"

text \<open>Releasing the handle of port 5 fails.\<close>

definition E_release_fails :: env where
  "E_release_fails =
     E_ok\<lparr>rte_kni_release := (\<lambda>tr k. if group_id (kni_conf k) = 5 then - 1 else 0)\<rparr>"

text \<open>Every \<open>close\<close> fails.\<close>

definition E_close_fails :: env where
  "E_close_fails = E_ok\<lparr>close := (\<lambda>tr fd. - 1)\<rparr>"

text \<open>Only the first \<open>socket\<close> call succeeds.\<close>

definition E_socket_once :: env where
  "E_socket_once = E_ok\<lparr>socket := (\<lambda>tr. if Ev_socket 3 \<in> set tr then - 1 else 3)\<rparr>"

text \<open>The device-info (MTU bounds) query fails.\<close>

definition E_info_fails :: env where
  "E_info_fails =
     E_ok\<lparr>rte_eth_dev_info_get := (\<lambda>tr pid. (- 19, \<lparr>di_min_mtu = 0, di_max_mtu = 0\<rparr>))\<rparr>"

text \<open>The allocation of a handle is refused.\<close>

definition E_alloc_fails :: env where
  "E_alloc_fails = E_ok\<lparr>rte_kni_alloc := (\<lambda>tr pool conf. False)\<rparr>"

text \<open>Reading the interface flags fails.\<close>

definition E_get_fails :: env where
  "E_get_fails = E_ok\<lparr>ioctl_SIOCGIFFLAGS := (\<lambda>tr fd nm. (- 1, 0))\<rparr>"

text \<open>The kernel-facing queue takes no buffer.\<close>

definition E_queue_full :: env where
  "E_queue_full = E_ok\<lparr>rte_kni_tx_burst := (\<lambda>tr k m. 0)\<rparr>"

definition port5 :: netif_port where
  "port5 = \<lparr>port_id = 5, mbuf_pool = (\<lambda>q. 100), kni = None\<rparr>"

definition port2 :: netif_port where
  "port2 = \<lparr>port_id = 2, mbuf_pool = (\<lambda>q. 200), kni = None\<rparr>"

text \<open>The handle that \<open>E_ok\<close> builds for a name, a hardware id and a pool.\<close>

definition handle :: "string \<Rightarrow> 16 word \<Rightarrow> mempool \<Rightarrow> rte_kni" where
  "handle nm pid pool =
     \<lparr>kni_conf = \<lparr>name = nm, group_id = pid, mbuf_size = 2048, mac_addr = [2, 0, 0, 0, 0, 1],
                  mtu = 1500, min_mtu = 68, max_mtu = 9000\<rparr>,
      kni_pool = pool\<rparr>"

text \<open>Before start: two ports, no handles.\<close>

definition cfg52 :: config where
  "cfg52 = \<lparr>cfg_kni = True, kni_ifname = ''kni'', ports = [port5, port2]\<rparr>"

text \<open>The same with a prefix of 15 characters.\<close>

definition cfg_long :: config where
  "cfg_long = \<lparr>cfg_kni = True, kni_ifname = ''dperf-kni-port-'', ports = [port5, port2]\<rparr>"

text \<open>After a successful start.\<close>

definition cfg_up :: config where
  "cfg_up =
     \<lparr>cfg_kni = True, kni_ifname = ''kni'',
      ports = [port5\<lparr>kni := Some (handle ''kni0'' 5 100)\<rparr>,
               port2\<lparr>kni := Some (handle ''kni1'' 2 200)\<rparr>]\<rparr>"

text \<open>Three ports, the middle one without a handle.\<close>

definition cfg_mixed :: config where
  "cfg_mixed =
     \<lparr>cfg_kni = True, kni_ifname = ''kni'',
      ports = [port5\<lparr>kni := Some (handle ''kni0'' 5 100)\<rparr>, port2,
               port2\<lparr>kni := Some (handle ''kni2'' 2 200)\<rparr>]\<rparr>"

section \<open>Properties\<close>

subsection \<open>Evaluating names\<close>

lemma dec_digits_0: "dec_digits 0 = ''0''"
  by (simp add: dec_digits.simps digit_char_def)

lemma dec_digits_1: "dec_digits (Suc 0) = ''1''"
  by (simp add: dec_digits.simps digit_char_def)

lemma fmt_d_0: "fmt_d 0 = ''0''"
  by (simp add: fmt_d_def dec_digits.simps digit_char_def)

lemma fmt_d_1: "fmt_d 1 = ''1''"
  by (simp add: fmt_d_def dec_digits.simps digit_char_def)

lemma fmt_d_nat: "fmt_d (int n) = dec_digits n"
  by (simp add: fmt_d_def)

lemma kni_set_name_take:
  "kni_set_name M cfg pos = take (RTE_KNI_NAMESIZE M - 1) (kni_ifname cfg @ dec_digits pos)"
  by (simp add: kni_set_name_def snprintf_s_d_def fmt_d_nat)

subsection \<open>One port of the creation loop\<close>

lemma kni_alloc_unfold:
  "kni_alloc E M cfg pos p tr =
     (let r = rte_eth_dev_info_get E tr (port_id p);
          tr1 = tr @ [Ev_rte_eth_dev_info_get (port_id p) r]
      in if fst r \<noteq> 0 then (None, tr1)
         else
           let g = rte_eth_dev_get_mtu E tr1 (port_id p);
               tr2 = tr1 @ [Ev_rte_eth_dev_get_mtu (port_id p) g];
               m = rte_eth_macaddr_get E tr2 (port_id p);
               tr3 = tr2 @ [Ev_rte_eth_macaddr_get (port_id p) m]
           in if fst m \<noteq> 0 then (None, tr3)
              else
                let conf = built_conf M cfg pos p r g m;
                    ok = rte_kni_alloc E tr3 (mbuf_pool p 0) conf
                in (if ok then Some \<lparr>kni_conf = conf, kni_pool = mbuf_pool p 0\<rparr> else None,
                    tr3 @ [Ev_rte_kni_alloc (mbuf_pool p 0) conf ok]))"
proof -
  have c: "(case x of None \<Rightarrow> c | Some v \<Rightarrow> c\<lparr>mtu := v\<rparr>)\<lparr>mac_addr := a\<rparr>
      = c\<lparr>mac_addr := a, mtu := (case x of None \<Rightarrow> mtu c | Some v \<Rightarrow> v)\<rparr>"
    for x :: "16 word option" and c :: rte_kni_conf and a
    by (cases x) simp_all
  show ?thesis
    by (simp add: kni_alloc_def kni_set_mtu_def kni_set_mac_def conf_zero_def built_conf_def
        Let_def c split: option.split)
qed

lemma kni_alloc_None:
  assumes "kni_alloc E M cfg pos p tr = (None, tr')"
  shows "\<exists>evs. tr' = tr @ evs \<and> create_run M cfg pos (p # ps) evs (- 1) (p # ps)"
proof -
  let ?pid = "port_id p"
  obtain ri info where r: "rte_eth_dev_info_get E tr ?pid = (ri, info)"
    by (cases "rte_eth_dev_info_get E tr ?pid")
  let ?tr1 = "tr @ [Ev_rte_eth_dev_info_get ?pid (ri, info)]"
  let ?g = "rte_eth_dev_get_mtu E ?tr1 ?pid"
  let ?tr2 = "?tr1 @ [Ev_rte_eth_dev_get_mtu ?pid ?g]"
  obtain mi mac where m: "rte_eth_macaddr_get E ?tr2 ?pid = (mi, mac)"
    by (cases "rte_eth_macaddr_get E ?tr2 ?pid")
  let ?tr3 = "?tr2 @ [Ev_rte_eth_macaddr_get ?pid (mi, mac)]"
  let ?conf = "built_conf M cfg pos p (ri, info) ?g (mi, mac)"
  show ?thesis
  proof (cases "ri \<noteq> 0")
    case True
    with assms r have t: "tr' = ?tr1" by (simp add: kni_alloc_unfold Let_def)
    from True have "create_run M cfg pos (p # ps)
        [Ev_rte_eth_dev_info_get ?pid (ri, info)] (- 1) (p # ps)"
      by (rule cr_info)
    with t show ?thesis by (intro exI[of _ "[Ev_rte_eth_dev_info_get ?pid (ri, info)]"] conjI)
  next
    case False
    then have ri: "ri = 0" by simp
    show ?thesis
    proof (cases "mi \<noteq> 0")
      case True
      let ?evs = "[Ev_rte_eth_dev_info_get ?pid (0, info), Ev_rte_eth_dev_get_mtu ?pid ?g,
           Ev_rte_eth_macaddr_get ?pid (mi, mac)]"
      from assms r m ri True have t: "tr' = tr @ ?evs" by (simp add: kni_alloc_unfold Let_def)
      from True have "create_run M cfg pos (p # ps) ?evs (- 1) (p # ps)"
        by (rule cr_mac)
      with t ri show ?thesis by (intro exI[of _ ?evs] conjI) simp_all
    next
      case False
      then have mi: "mi = 0" by simp
      let ?evs = "[Ev_rte_eth_dev_info_get ?pid (0, info), Ev_rte_eth_dev_get_mtu ?pid ?g,
           Ev_rte_eth_macaddr_get ?pid (0, mac), Ev_rte_kni_alloc (mbuf_pool p 0) ?conf False]"
      from assms r m ri mi have t: "tr' = tr @ ?evs"
        by (auto simp add: kni_alloc_unfold Let_def split: if_splits)
      have "create_run M cfg pos (p # ps) ?evs (- 1) (p # ps)"
        unfolding ri mi by (rule cr_alloc) (rule refl)
      with t show ?thesis by (intro exI[of _ ?evs] conjI)
    qed
  qed
qed

lemma kni_alloc_Some:
  assumes "kni_alloc E M cfg pos p tr = (Some h, tr')"
  shows "\<exists>info g mac. kni_pool h = mbuf_pool p 0 \<and>
     kni_conf h = built_conf M cfg pos p (0, info) g (0, mac) \<and>
     tr' = tr @ [Ev_rte_eth_dev_info_get (port_id p) (0, info),
        Ev_rte_eth_dev_get_mtu (port_id p) g,
        Ev_rte_eth_macaddr_get (port_id p) (0, mac),
        Ev_rte_kni_alloc (mbuf_pool p 0) (kni_conf h) True]"
proof -
  let ?pid = "port_id p"
  obtain ri info where r: "rte_eth_dev_info_get E tr ?pid = (ri, info)"
    by (cases "rte_eth_dev_info_get E tr ?pid")
  let ?tr1 = "tr @ [Ev_rte_eth_dev_info_get ?pid (ri, info)]"
  let ?g = "rte_eth_dev_get_mtu E ?tr1 ?pid"
  let ?tr2 = "?tr1 @ [Ev_rte_eth_dev_get_mtu ?pid ?g]"
  obtain mi mac where m: "rte_eth_macaddr_get E ?tr2 ?pid = (mi, mac)"
    by (cases "rte_eth_macaddr_get E ?tr2 ?pid")
  let ?tr3 = "?tr2 @ [Ev_rte_eth_macaddr_get ?pid (mi, mac)]"
  let ?conf = "built_conf M cfg pos p (ri, info) ?g (mi, mac)"
  from assms r have ri: "ri = 0"
    by (simp add: kni_alloc_unfold Let_def split: if_splits)
  with assms r m have mi: "mi = 0"
    by (simp add: kni_alloc_unfold Let_def split: if_splits)
  with assms r m ri have h: "h = \<lparr>kni_conf = ?conf, kni_pool = mbuf_pool p 0\<rparr>"
    and t: "tr' = ?tr3 @ [Ev_rte_kni_alloc (mbuf_pool p 0) ?conf True]"
    by (auto simp add: kni_alloc_unfold Let_def split: if_splits)
  have "kni_pool h = mbuf_pool p 0 \<and>
     kni_conf h = built_conf M cfg pos p (0, info) ?g (0, mac) \<and>
     tr' = tr @ [Ev_rte_eth_dev_info_get (port_id p) (0, info),
        Ev_rte_eth_dev_get_mtu (port_id p) ?g,
        Ev_rte_eth_macaddr_get (port_id p) (0, mac),
        Ev_rte_kni_alloc (mbuf_pool p 0) (kni_conf h) True]"
    using h t ri mi by simp
  then show ?thesis by blast
qed

subsection \<open>The creation loop and its runs\<close>

lemma kni_create_loop_run:
  "kni_create_loop E M cfg pos ps tr = (r, ps', tr') \<Longrightarrow>
     \<exists>evs. tr' = tr @ evs \<and> create_run M cfg pos ps evs r ps'"
proof (induction ps arbitrary: pos tr r ps' tr')
  case Nil
  then show ?case by (auto intro: cr_done)
next
  case (Cons p ps)
  obtain res tr1 where a: "kni_alloc E M cfg pos p tr = (res, tr1)"
    by (cases "kni_alloc E M cfg pos p tr")
  show ?case
  proof (cases res)
    case None
    with a Cons.prems have "r = - 1" "ps' = p # ps" "tr' = tr1" by auto
    with kni_alloc_None[OF a[unfolded None]] show ?thesis by blast
  next
    case (Some h)
    obtain r2 ps2 tr2 where l: "kni_create_loop E M cfg (Suc pos) ps tr1 = (r2, ps2, tr2)"
      by (cases "kni_create_loop E M cfg (Suc pos) ps tr1")
    with a Some Cons.prems have e: "r = r2" "ps' = p\<lparr>kni := Some h\<rparr> # ps2" "tr' = tr2"
      by auto
    from Cons.IH[OF l] obtain evs where
      evs: "tr2 = tr1 @ evs" "create_run M cfg (Suc pos) ps evs r2 ps2" by blast
    from kni_alloc_Some[OF a[unfolded Some]] obtain info g mac where
      h: "kni_pool h = mbuf_pool p 0"
        "kni_conf h = built_conf M cfg pos p (0, info) g (0, mac)"
        "tr1 = tr @ [Ev_rte_eth_dev_info_get (port_id p) (0, info),
           Ev_rte_eth_dev_get_mtu (port_id p) g,
           Ev_rte_eth_macaddr_get (port_id p) (0, mac),
           Ev_rte_kni_alloc (mbuf_pool p 0) (kni_conf h) True]"
      by blast
    have hh: "h = \<lparr>kni_conf = kni_conf h, kni_pool = mbuf_pool p 0\<rparr>" using h(1) by simp
    have "create_run M cfg pos (p # ps)
      ([Ev_rte_eth_dev_info_get (port_id p) (0, info), Ev_rte_eth_dev_get_mtu (port_id p) g,
        Ev_rte_eth_macaddr_get (port_id p) (0, mac),
        Ev_rte_kni_alloc (mbuf_pool p 0) (kni_conf h) True] @ evs)
      r2 (p\<lparr>kni := Some \<lparr>kni_conf = kni_conf h, kni_pool = mbuf_pool p 0\<rparr>\<rparr> # ps2)"
      using h(2) evs(2) by (intro cr_step)
    then have "create_run M cfg pos (p # ps)
      ([Ev_rte_eth_dev_info_get (port_id p) (0, info), Ev_rte_eth_dev_get_mtu (port_id p) g,
        Ev_rte_eth_macaddr_get (port_id p) (0, mac),
        Ev_rte_kni_alloc (mbuf_pool p 0) (kni_conf h) True] @ evs)
      r2 (p\<lparr>kni := Some h\<rparr> # ps2)" using hh by simp
    with e evs h(3) show ?thesis by auto
  qed
qed

lemma kni_start_run:
  assumes "cfg_kni cfg" "kni_start E M cfg tr = (r, cfg', tr')"
  shows "\<exists>evs. tr' = tr @ Ev_rte_kni_init (NETIF_PORT_MAX M) # evs \<and>
           create_run M cfg 0 (ports cfg) evs r (ports cfg') \<and>
           cfg' = cfg\<lparr>ports := ports cfg'\<rparr>"
proof -
  let ?tr1 = "tr @ [Ev_rte_kni_init (NETIF_PORT_MAX M)]"
  obtain r1 ps1 tr1 where l: "kni_create_loop E M cfg 0 (ports cfg) ?tr1 = (r1, ps1, tr1)"
    by (cases "kni_create_loop E M cfg 0 (ports cfg) ?tr1")
  with assms have e: "r = r1" "cfg' = cfg\<lparr>ports := ps1\<rparr>" "tr' = tr1"
    by (simp_all add: kni_start_def kni_create_def)
  from kni_create_loop_run[OF l] e show ?thesis by auto
qed

lemma create_run_result: "create_run M cfg pos ps evs r ps' \<Longrightarrow> r = 0 \<or> r = - 1"
  by (induction rule: create_run.induct) auto

lemma create_run_length: "create_run M cfg pos ps evs r ps' \<Longrightarrow> length ps' = length ps"
  by (induction rule: create_run.induct) auto

lemma create_run_handles:
  "create_run M cfg pos ps evs r ps' \<Longrightarrow> j < length ps \<Longrightarrow>
     port_id (ps' ! j) = port_id (ps ! j) \<and> mbuf_pool (ps' ! j) = mbuf_pool (ps ! j) \<and>
     (kni (ps' ! j) = kni (ps ! j) \<or>
      (\<exists>h. kni (ps' ! j) = Some h \<and> name (kni_conf h) = kni_set_name M cfg (pos + j) \<and>
           group_id (kni_conf h) = port_id (ps ! j) \<and>
           mbuf_size (kni_conf h) = RTE_MBUF_DEFAULT_DATAROOM \<and>
           kni_pool h = mbuf_pool (ps ! j) 0))"
proof (induction arbitrary: j rule: create_run.induct)
  case (cr_step conf pos p info g mac ps evs res ps')
  then show ?case by (cases j) (auto simp: built_conf_def)
qed auto

lemma create_run_success:
  "create_run M cfg pos ps evs r ps' \<Longrightarrow> r = 0 \<Longrightarrow> j < length ps \<Longrightarrow> kni (ps' ! j) \<noteq> None"
proof (induction arbitrary: j rule: create_run.induct)
  case (cr_step conf pos p info g mac ps evs res ps')
  then show ?case by (cases j) auto
qed auto

lemma create_run_failure_iff:
  "create_run M cfg pos ps evs r ps' \<Longrightarrow> (r = - 1) = (\<exists>e\<in>set evs. start_failure e)"
  by (induction rule: create_run.induct) (auto simp: start_failure_def)

lemma create_run_failure_last:
  "create_run M cfg pos ps evs r ps' \<Longrightarrow> \<forall>e\<in>set (butlast evs). \<not> start_failure e"
proof (induction rule: create_run.induct)
  case (cr_step conf pos p info g mac ps evs res ps')
  then show ?case by (cases evs) (auto simp: start_failure_def)
qed (auto simp: start_failure_def)

lemma create_run_failing_port:
  "create_run M cfg pos ps evs r ps' \<Longrightarrow> r = - 1 \<Longrightarrow>
     \<exists>j<length ps. (\<forall>i<j. kni (ps' ! i) \<noteq> None) \<and> drop j ps' = drop j ps \<and>
        evs \<noteq> [] \<and> event_port (last evs) = Some (port_id (ps ! j))"
proof (induction rule: create_run.induct)
  case (cr_step conf pos p info g mac ps evs res ps')
  then obtain j where j: "j < length ps" "\<forall>i<j. kni (ps' ! i) \<noteq> None" "drop j ps' = drop j ps"
     "evs \<noteq> []" "event_port (last evs) = Some (port_id (ps ! j))" by auto
  have "\<forall>i<Suc j. kni ((p\<lparr>kni := Some \<lparr>kni_conf = conf, kni_pool = mbuf_pool p 0\<rparr>\<rparr> # ps') ! i)
      \<noteq> None"
    using j(2) by (auto simp: nth_Cons')
  with j show ?case by (intro exI[of _ "Suc j"]) auto
qed (auto simp: event_port_def built_conf_def)

lemma create_run_mtu:
  "create_run M cfg pos ps evs r ps' \<Longrightarrow> j < length ps \<Longrightarrow> kni (ps ! j) = None \<Longrightarrow>
   kni (ps' ! j) = Some h \<Longrightarrow>
     \<exists>g. Ev_rte_eth_dev_get_mtu (port_id (ps ! j)) g \<in> set evs \<and>
         mtu (kni_conf h) = (case snd g of None \<Rightarrow> 0 | Some v \<Rightarrow> v)"
proof (induction arbitrary: j rule: create_run.induct)
  case (cr_step conf pos p info g mac ps evs res ps')
  show ?case
  proof (cases j)
    case 0
    with cr_step.prems cr_step.hyps(1) show ?thesis
      by (intro exI[of _ g]) (auto simp: built_conf_def)
  next
    case (Suc k)
    with cr_step.prems cr_step.IH[of k] show ?thesis by auto
  qed
qed auto

lemma kni_start_handles:
  assumes "cfg_kni cfg" "kni_start E M cfg tr = (r, cfg', tr')"
    "\<forall>p\<in>set (ports cfg). kni p = None" "j < length (ports cfg)" "kni (ports cfg' ! j) = Some h"
  shows "name (kni_conf h) = kni_set_name M cfg j \<and>
     group_id (kni_conf h) = port_id (ports cfg ! j) \<and>
     port_id (ports cfg' ! j) = port_id (ports cfg ! j)"
proof -
  from kni_start_run[OF assms(1,2)] obtain evs where
    run: "create_run M cfg 0 (ports cfg) evs r (ports cfg')" by blast
  from assms(3,4) have "kni (ports cfg ! j) = None" by simp
  with create_run_handles[OF run assms(4)] assms(5) show ?thesis by auto
qed

subsection \<open>The creation loop reports the answers of the environment\<close>

lemma honest_append: "honest E h (xs @ ys) = (honest E h xs \<and> honest E (h @ xs) ys)"
  by (induction xs arbitrary: h) auto

lemma kni_alloc_honest:
  assumes "kni_alloc E M cfg pos p tr = (res, tr')"
  shows "\<exists>evs. tr' = tr @ evs \<and> honest E tr evs"
proof -
  from assms have "take (length tr) tr' = tr \<and> honest E tr (drop (length tr) tr')"
    by (auto simp add: kni_alloc_unfold Let_def answered_def split: if_splits)
  then have "tr' = tr @ drop (length tr) tr' \<and> honest E tr (drop (length tr) tr')"
    by (metis append_take_drop_id)
  then show ?thesis by blast
qed

lemma kni_create_loop_honest:
  "kni_create_loop E M cfg pos ps tr = (r, ps', tr') \<Longrightarrow>
     \<exists>evs. tr' = tr @ evs \<and> honest E tr evs"
proof (induction ps arbitrary: pos tr r ps' tr')
  case Nil
  then have "tr' = tr @ [] \<and> honest E tr []" by simp
  then show ?case by blast
next
  case (Cons p ps)
  obtain res tr1 where a: "kni_alloc E M cfg pos p tr = (res, tr1)"
    by (cases "kni_alloc E M cfg pos p tr")
  from kni_alloc_honest[OF a] obtain es where
    es: "tr1 = tr @ es" "honest E tr es" by blast
  show ?case
  proof (cases res)
    case None
    with a Cons.prems have "tr' = tr1" by simp
    with es show ?thesis by blast
  next
    case (Some h)
    obtain r2 ps2 tr2 where l: "kni_create_loop E M cfg (Suc pos) ps tr1 = (r2, ps2, tr2)"
      by (cases "kni_create_loop E M cfg (Suc pos) ps tr1")
    with a Some Cons.prems have e: "tr' = tr2" by simp
    from Cons.IH[OF l] obtain fs where fs: "tr2 = tr1 @ fs" "honest E tr1 fs" by blast
    from es fs e have "tr' = tr @ (es @ fs) \<and> honest E tr (es @ fs)"
      by (simp add: honest_append)
    then show ?thesis by blast
  qed
qed

lemma kni_start_honest:
  assumes "cfg_kni cfg" "kni_start E M cfg tr = (r, cfg', tr')"
  shows "\<exists>evs. tr' = tr @ Ev_rte_kni_init (NETIF_PORT_MAX M) # evs \<and>
           honest E (tr @ [Ev_rte_kni_init (NETIF_PORT_MAX M)]) evs"
proof -
  let ?tr1 = "tr @ [Ev_rte_kni_init (NETIF_PORT_MAX M)]"
  obtain r1 ps1 tr1 where l: "kni_create_loop E M cfg 0 (ports cfg) ?tr1 = (r1, ps1, tr1)"
    by (cases "kni_create_loop E M cfg 0 (ports cfg) ?tr1")
  with assms have e: "tr' = tr1" by (simp add: kni_start_def kni_create_def)
  from kni_create_loop_honest[OF l] e show ?thesis by auto
qed

subsection \<open>The release loop\<close>

lemma kni_free_loop_spec:
  "kni_free_loop E ps tr = (ps', tr') \<Longrightarrow>
     ps' = map (\<lambda>p. p\<lparr>kni := None\<rparr>) ps \<and>
     (\<exists>rs. length rs = length (List.map_filter kni ps) \<and>
        tr' = tr @ concat (map2 release_events (List.map_filter kni ps) rs))"
proof (induction ps arbitrary: tr ps' tr')
  case Nil
  then show ?case by (simp add: List.map_filter_simps)
next
  case (Cons p ps)
  show ?case
  proof (cases "kni p")
    case None
    obtain ps2 tr2 where l: "kni_free_loop E ps tr = (ps2, tr2)"
      by (cases "kni_free_loop E ps tr")
    with None Cons.prems have e: "ps' = p # ps2" "tr' = tr2" by auto
    from None have "p\<lparr>kni := None\<rparr> = p" by simp
    with Cons.IH[OF l] e None show ?thesis by (simp add: List.map_filter_simps)
  next
    case (Some k)
    let ?r = "rte_kni_release E tr k"
    let ?tr2 = "tr @ release_events k ?r"
    obtain ps2 tr2 where l: "kni_free_loop E ps ?tr2 = (ps2, tr2)"
      by (cases "kni_free_loop E ps ?tr2")
    with Some Cons.prems have e: "ps' = p\<lparr>kni := None\<rparr> # ps2" "tr' = tr2"
      by (auto simp: release_events_def Let_def split: if_splits)
    from Cons.IH[OF l] obtain rs where rs: "ps2 = map (\<lambda>p. p\<lparr>kni := None\<rparr>) ps"
      "length rs = length (List.map_filter kni ps)"
      "tr2 = ?tr2 @ concat (map2 release_events (List.map_filter kni ps) rs)" by blast
    have "length (?r # rs) = length (List.map_filter kni (p # ps)) \<and>
       tr' = tr @ concat (map2 release_events (List.map_filter kni (p # ps)) (?r # rs))"
      using rs e Some by (simp add: List.map_filter_simps)
    moreover from rs(1) e(1) have "ps' = map (\<lambda>p. p\<lparr>kni := None\<rparr>) (p # ps)" by simp
    ultimately show ?thesis by blast
  qed
qed

subsection \<open>Link activation and its runs\<close>

lemma kni_set_link_up_cases [consumes 1, case_names skip socket get set up]:
  assumes "kni_set_link_up E M cfg pos p tr = (r, tr')"
  obtains
    "kni p = None" "r = 0" "tr' = tr"
  | fd where "kni p \<noteq> None" "fd < 0" "r = - 1" "tr' = tr @ [Ev_socket fd]"
  | fd ret flags c where "kni p \<noteq> None" "0 \<le> fd" "ret < 0" "r = - 1"
      "tr' = tr @ [Ev_socket fd, Ev_ioctl_SIOCGIFFLAGS fd (kni_set_name M cfg pos) (ret, flags),
         Ev_printf ''kni get flags error\<newline>'', Ev_close fd c]"
  | fd ret flags s c where "kni p \<noteq> None" "0 \<le> fd" "0 \<le> ret" "s < 0" "r = - 1"
      "tr' = tr @ [Ev_socket fd, Ev_ioctl_SIOCGIFFLAGS fd (kni_set_name M cfg pos) (ret, flags),
         Ev_ioctl_SIOCSIFFLAGS fd (kni_set_name M cfg pos) (flags OR IFF_UP) s,
         Ev_printf ''kni set flags error\<newline>'', Ev_close fd c]"
  | fd ret flags s c where "kni p \<noteq> None" "0 \<le> fd" "0 \<le> ret" "0 \<le> s" "r = 0"
      "tr' = tr @ [Ev_socket fd, Ev_ioctl_SIOCGIFFLAGS fd (kni_set_name M cfg pos) (ret, flags),
         Ev_ioctl_SIOCSIFFLAGS fd (kni_set_name M cfg pos) (flags OR IFF_UP) s, Ev_close fd c]"
proof (cases "kni p")
  case None
  with assms have "r = 0" "tr' = tr" by (simp_all add: kni_set_link_up_def)
  with None show thesis by (rule that(1))
next
  case (Some k)
  then have k: "kni p \<noteq> None" by simp
  let ?fd = "socket E tr"
  let ?tr1 = "tr @ [Ev_socket ?fd]"
  let ?nm = "kni_set_name M cfg pos"
  let ?g = "ioctl_SIOCGIFFLAGS E ?tr1 ?fd ?nm"
  let ?tr2 = "?tr1 @ [Ev_ioctl_SIOCGIFFLAGS ?fd ?nm ?g]"
  show thesis
  proof (cases "?fd < 0")
    case True
    with assms Some have "r = - 1" "tr' = tr @ [Ev_socket ?fd]"
      by (simp_all add: kni_set_link_up_def Let_def)
    with k True show thesis by (rule that(2))
  next
    case fd: False
    then have fd0: "0 \<le> ?fd" by simp
    show thesis
    proof (cases "fst ?g < 0")
      case True
      let ?tr5 = "?tr2 @ [Ev_printf ''kni get flags error\<newline>'']"
      from assms Some fd True have "r = - 1"
        "tr' = tr @ [Ev_socket ?fd, Ev_ioctl_SIOCGIFFLAGS ?fd ?nm (fst ?g, snd ?g),
           Ev_printf ''kni get flags error\<newline>'', Ev_close ?fd (close E ?tr5 ?fd)]"
        by (simp_all add: kni_set_link_up_def Let_def)
      with k fd0 True show thesis by (rule that(3))
    next
      case False
      then have g0: "0 \<le> fst ?g" by simp
      let ?fl = "snd ?g OR IFF_UP"
      let ?s = "ioctl_SIOCSIFFLAGS E ?tr2 ?fd ?nm ?fl"
      let ?tr3 = "?tr2 @ [Ev_ioctl_SIOCSIFFLAGS ?fd ?nm ?fl ?s]"
      show thesis
      proof (cases "?s < 0")
        case True
        let ?tr5 = "?tr3 @ [Ev_printf ''kni set flags error\<newline>'']"
        from assms Some fd False True have "r = - 1"
          "tr' = tr @ [Ev_socket ?fd, Ev_ioctl_SIOCGIFFLAGS ?fd ?nm (fst ?g, snd ?g),
             Ev_ioctl_SIOCSIFFLAGS ?fd ?nm ?fl ?s,
             Ev_printf ''kni set flags error\<newline>'', Ev_close ?fd (close E ?tr5 ?fd)]"
          by (simp_all add: kni_set_link_up_def Let_def)
        with k fd0 g0 True show thesis by (rule that(4))
      next
        case s: False
        then have s0: "0 \<le> ?s" by simp
        from assms Some fd False s have "r = 0"
          "tr' = tr @ [Ev_socket ?fd, Ev_ioctl_SIOCGIFFLAGS ?fd ?nm (fst ?g, snd ?g),
             Ev_ioctl_SIOCSIFFLAGS ?fd ?nm ?fl ?s, Ev_close ?fd (close E ?tr3 ?fd)]"
          by (simp_all add: kni_set_link_up_def Let_def)
        with k fd0 g0 s0 show thesis by (rule that(5))
      qed
    qed
  qed
qed

lemma kni_link_up_loop_run:
  "kni_link_up_loop E M cfg pos ps tr = (r, tr') \<Longrightarrow>
     \<exists>evs. tr' = tr @ evs \<and> link_up_run M cfg pos ps evs r"
proof (induction ps arbitrary: pos tr r tr')
  case Nil
  then show ?case by (auto intro: lu_done)
next
  case (Cons p ps)
  obtain r1 tr1 where s: "kni_set_link_up E M cfg pos p tr = (r1, tr1)"
    by (cases "kni_set_link_up E M cfg pos p tr")
  have stop: "r = - 1 \<and> tr' = tr1" if "r1 = - 1"
    using that s Cons.prems by simp
  have go: "\<exists>es. tr' = tr1 @ es \<and> link_up_run M cfg (Suc pos) ps es r" if "r1 = 0"
  proof -
    from that s Cons.prems have "kni_link_up_loop E M cfg (Suc pos) ps tr1 = (r, tr')" by simp
    then show ?thesis by (rule Cons.IH)
  qed
  from s show ?case
  proof (cases rule: kni_set_link_up_cases)
    case skip
    from go[OF skip(2)] obtain es where
      es: "tr' = tr1 @ es" "link_up_run M cfg (Suc pos) ps es r" by blast
    from lu_skip[OF skip(1) es(2)] have "link_up_run M cfg pos (p # ps) es r" .
    moreover from es(1) skip(3) have "tr' = tr @ es" by simp
    ultimately show ?thesis by (intro exI[of _ es] conjI)
  next
    case (socket fd)
    from stop[OF socket(3)] socket(4) have e: "r = - 1" "tr' = tr @ [Ev_socket fd]"
      by simp_all
    from lu_socket[OF socket(1,2)] have "link_up_run M cfg pos (p # ps) [Ev_socket fd] r"
      unfolding e(1) .
    with e(2) show ?thesis by (intro exI[of _ "[Ev_socket fd]"] conjI)
  next
    case (get fd ret flags c)
    let ?evs = "[Ev_socket fd, Ev_ioctl_SIOCGIFFLAGS fd (kni_set_name M cfg pos) (ret, flags),
         Ev_printf ''kni get flags error\<newline>'', Ev_close fd c]"
    from stop[OF get(4)] get(5) have e: "r = - 1" "tr' = tr @ ?evs" by simp_all
    from lu_get[OF get(1,2,3)] have "link_up_run M cfg pos (p # ps) ?evs r"
      unfolding e(1) .
    with e(2) show ?thesis by (intro exI[of _ ?evs] conjI)
  next
    case (set fd ret flags s c)
    let ?evs = "[Ev_socket fd, Ev_ioctl_SIOCGIFFLAGS fd (kni_set_name M cfg pos) (ret, flags),
         Ev_ioctl_SIOCSIFFLAGS fd (kni_set_name M cfg pos) (flags OR IFF_UP) s,
         Ev_printf ''kni set flags error\<newline>'', Ev_close fd c]"
    from stop[OF set(5)] set(6) have e: "r = - 1" "tr' = tr @ ?evs" by simp_all
    from lu_set[OF set(1,2,3,4)] have "link_up_run M cfg pos (p # ps) ?evs r"
      unfolding e(1) .
    with e(2) show ?thesis by (intro exI[of _ ?evs] conjI)
  next
    case (up fd ret flags s c)
    let ?evs = "[Ev_socket fd, Ev_ioctl_SIOCGIFFLAGS fd (kni_set_name M cfg pos) (ret, flags),
          Ev_ioctl_SIOCSIFFLAGS fd (kni_set_name M cfg pos) (flags OR IFF_UP) s,
          Ev_close fd c]"
    from go[OF up(5)] obtain es where
      es: "tr' = tr1 @ es" "link_up_run M cfg (Suc pos) ps es r" by blast
    from lu_up[OF up(1,2,3,4) es(2)] have "link_up_run M cfg pos (p # ps) (?evs @ es) r" .
    moreover from es(1) up(6) have "tr' = tr @ (?evs @ es)" by simp
    ultimately show ?thesis by (intro exI[of _ "?evs @ es"] conjI)
  qed
qed

subsection \<open>The transmit loop of \<open>kni_send\<close>\<close>

lemma kni_send_loop_eq:
  "kni_send_loop ms tr =
     tr @ concat (map (\<lambda>m. [Ev_work_space_tx_send m, Ev_net_stats_kni_tx]) ms)"
  by (induction ms arbitrary: tr) auto

subsection \<open>Unfolding on the scenarios\<close>

lemmas scenario_defs =
  M16_def E_ok_def E_mtu_fails_def E_mac_fails_def E_info_fails_def E_alloc_fails_def
  E_release_fails_def E_close_fails_def
  E_socket_once_def E_get_fails_def E_queue_full_def port5_def port2_def handle_def
  cfg52_def cfg_long_def cfg_up_def cfg_mixed_def

lemmas eval_defs =
  kni_start_def kni_create_def kni_alloc_unfold built_conf_def Let_def
  kni_set_name_def snprintf_s_d_def fmt_d_0 fmt_d_1 dec_digits_0 dec_digits_1
  RTE_MBUF_DEFAULT_DATAROOM_def IFF_UP_def
  kni_stop_def kni_free_def kni_link_up_def kni_set_link_up_def
  kni_recv_def kni_send_def mbuf_free2_def

section \<open>The claims\<close>

subsection \<open>C1: names follow the position in the list\<close>

text \<open>
  Counterexample to C1 as stated. With a name buffer of 16 bytes and the 15-character
  prefix \<open>dperf-kni-port-\<close>, the name computed for the port at position 1 is the bare
  prefix: the ordinal does not fit and \<open>snprintf\<close> drops it. So the name is not always
  the prefix followed by the position.
\<close>

theorem kni_set_name_not_prefix_ordinal:
  "kni_set_name M16 cfg_long 1 = ''dperf-kni-port-'' \<and>
   kni_set_name M16 cfg_long 1 \<noteq> kni_ifname cfg_long @ ''1''"
  by (simp add: scenario_defs eval_defs)

text \<open>
  C1, amended. Let start run on an enabled configuration whose ports carry no handle yet,
  and let \<open>j\<close> be a position in the configured list. When start succeeds the port at \<open>j\<close>
  has a handle. Every handle that start attaches at position \<open>j\<close> carries the name
  computed by \<open>kni_set_name\<close> for \<open>j\<close>, and that name
  \<^item> is the first \<open>RTE_KNI_NAMESIZE - 1\<close> characters of the prefix followed by the
    decimal digits of \<open>j\<close>: a longer name is cut;
  \<^item> is exactly the prefix followed by \<open>j\<close> when this is shorter than
    \<open>RTE_KNI_NAMESIZE\<close>;
  \<^item> is the same whatever ports are configured: the hardware ids play no part in it.
\<close>

theorem kni_start_names:
  assumes "cfg_kni cfg" and "kni_start E M cfg tr = (r, cfg', tr')"
    and "\<forall>p\<in>set (ports cfg). kni p = None"
    and "j < length (ports cfg)"
  shows "(r = 0 \<longrightarrow> kni (ports cfg' ! j) \<noteq> None) \<and>
         (\<forall>h. kni (ports cfg' ! j) = Some h \<longrightarrow>
              name (kni_conf h) = kni_set_name M cfg j \<and>
              name (kni_conf h) =
                take (RTE_KNI_NAMESIZE M - 1) (kni_ifname cfg @ dec_digits j) \<and>
              (length (kni_ifname cfg) + length (dec_digits j) < RTE_KNI_NAMESIZE M \<longrightarrow>
                 name (kni_conf h) = kni_ifname cfg @ dec_digits j)) \<and>
         (\<forall>ps. kni_set_name M (cfg\<lparr>ports := ps\<rparr>) j = kni_set_name M cfg j)"
proof -
  from kni_start_run[OF assms(1,2)] obtain evs where
    run: "create_run M cfg 0 (ports cfg) evs r (ports cfg')" by blast
  from create_run_success[OF run _ assms(4)] have "r = 0 \<longrightarrow> kni (ports cfg' ! j) \<noteq> None"
    by blast
  moreover have "name (kni_conf h) = kni_set_name M cfg j \<and>
      name (kni_conf h) = take (RTE_KNI_NAMESIZE M - 1) (kni_ifname cfg @ dec_digits j) \<and>
      (length (kni_ifname cfg) + length (dec_digits j) < RTE_KNI_NAMESIZE M \<longrightarrow>
         name (kni_conf h) = kni_ifname cfg @ dec_digits j)"
    if "kni (ports cfg' ! j) = Some h" for h
  proof -
    from kni_start_handles[OF assms that] have n: "name (kni_conf h) = kni_set_name M cfg j"
      by simp
    then show ?thesis by (simp add: kni_set_name_take)
  qed
  moreover have "kni_set_name M (cfg\<lparr>ports := ps\<rparr>) j = kni_set_name M cfg j" for ps
    by (simp add: kni_set_name_def)
  ultimately show ?thesis by blast
qed

text \<open>
  Witness: the ports with the hardware ids 5 and 2 under the prefix \<open>kni\<close> are named
  \<open>kni0\<close> and \<open>kni1\<close>; under the 15-character prefix the 16 characters needed for the
  second port are cut to 15.
\<close>

theorem kni_start_names_witness:
  "map (map_option (name \<circ> kni_conf) \<circ> kni) (ports (fst (snd (kni_start E_ok M16 cfg52 []))))
     = [Some ''kni0'', Some ''kni1''] \<and>
   map_option (name \<circ> kni_conf) (kni (ports (fst (snd (kni_start E_ok M16 cfg_long []))) ! 1))
     = Some (take 15 ''dperf-kni-port-1'')"
proof -
  let ?res = "kni_start E_ok M16 cfg52 []"
  let ?ps = "ports (fst (snd ?res))"
  have a: "cfg_kni cfg52" by (simp add: cfg52_def)
  have b: "?res = (fst ?res, fst (snd ?res), snd (snd ?res))" by simp
  have c: "\<forall>p\<in>set (ports cfg52). kni p = None" by (simp add: scenario_defs)
  have r: "fst ?res = 0" by (simp add: scenario_defs eval_defs)
  have len: "length ?ps = 2" by (simp add: scenario_defs eval_defs)
  have j0: "0 < length (ports cfg52)" and j1: "1 < length (ports cfg52)"
    by (simp_all add: cfg52_def)
  have f0: "length (kni_ifname cfg52) + length (dec_digits 0) < RTE_KNI_NAMESIZE M16"
    and f1: "length (kni_ifname cfg52) + length (dec_digits 1) < RTE_KNI_NAMESIZE M16"
    by (simp_all add: dec_digits_0 dec_digits_1 cfg52_def M16_def)
  note t0 = kni_start_names[OF a b c j0]
  note t1 = kni_start_names[OF a b c j1]
  from t0 r obtain h0 where k0: "kni (?ps ! 0) = Some h0" by auto
  from t1 r obtain h1 where k1: "kni (?ps ! 1) = Some h1" by auto
  from t0 k0 f0 have "name (kni_conf h0) = kni_ifname cfg52 @ dec_digits 0" by blast
  then have n0: "name (kni_conf h0) = ''kni0''" by (simp add: dec_digits_0 cfg52_def)
  from t1 k1 f1 have "name (kni_conf h1) = kni_ifname cfg52 @ dec_digits 1" by blast
  then have n1: "name (kni_conf h1) = ''kni1''" by (simp add: dec_digits_1 cfg52_def)
  from len obtain p0 p1 where ps: "?ps = [p0, p1]"
    by (auto simp: length_Suc_conv numeral_2_eq_2)
  with k0 k1 n0 n1 have short:
    "map (map_option (name \<circ> kni_conf) \<circ> kni) ?ps = [Some ''kni0'', Some ''kni1'']" by simp
  let ?long = "kni_start E_ok M16 cfg_long []"
  have la: "cfg_kni cfg_long" by (simp add: cfg_long_def)
  have lb: "?long = (fst ?long, fst (snd ?long), snd (snd ?long))" by simp
  have lc: "\<forall>p\<in>set (ports cfg_long). kni p = None" by (simp add: scenario_defs)
  have lj: "1 < length (ports cfg_long)" by (simp add: cfg_long_def)
  have "kni (ports (fst (snd ?long)) ! 1) \<noteq> None" by (simp add: scenario_defs eval_defs)
  then obtain h where h: "kni (ports (fst (snd ?long)) ! 1) = Some h" by blast
  from kni_start_names[OF la lb lc lj] h
  have "name (kni_conf h) = take (RTE_KNI_NAMESIZE M16 - 1) (kni_ifname cfg_long @ dec_digits 1)"
    by blast
  then have "name (kni_conf h) = take 15 ''dperf-kni-port-1''"
    by (simp add: dec_digits_1 cfg_long_def M16_def)
  with h have "map_option (name \<circ> kni_conf) (kni (ports (fst (snd ?long)) ! 1))
     = Some (take 15 ''dperf-kni-port-1'')" by simp
  with short show ?thesis by blast
qed

subsection \<open>C2: a port without a handle in the two bridge directions\<close>

text \<open>
  C2 holds for \<open>kni_recv\<close> (see C4) and fails for \<open>kni_send\<close>, which has no test for a
  NULL handle although \<open>kni_recv\<close>, \<open>kni_set_link_up\<close> and \<open>kni_free\<close> all have one. On a
  work space whose port carries no handle, \<open>kni_send\<close> calls both
  \<open>rte_kni_handle_request\<close> and the drain \<open>rte_kni_rx_burst\<close> with the NULL handle.
\<close>

theorem kni_send_null_handle_drains:
  "kni (ws_port \<lparr>ws_port = port5\<rparr>) = None \<and>
   kni_send E_ok M16 \<lparr>ws_port = port5\<rparr> [] =
     [Ev_rte_kni_handle_request None (- 1), Ev_rte_kni_rx_burst None 2 []]"
  by (simp add: scenario_defs eval_defs)

subsection \<open>C3: order and batch of \<open>kni_send\<close>\<close>

text \<open>
  C3. Every call of \<open>kni_send\<close> adds to the log, in this order: one
  \<open>rte_kni_handle_request\<close>; one \<open>rte_kni_rx_burst\<close> asking for at most \<open>NB_RXD\<close>
  buffers; and then, for each buffer \<open>m\<close> that the drain returned, in the order returned,
  one \<open>work_space_tx_send\<close> of \<open>m\<close> followed by one \<open>net_stats_kni_tx\<close>. When the drain
  keeps its contract of returning no more buffers than asked for, at most \<open>NB_RXD\<close>
  buffers are handled.
\<close>

theorem kni_send_order:
  "\<exists>h ms. kni_send E M ws tr =
       tr @ [Ev_rte_kni_handle_request (kni (ws_port ws)) h,
             Ev_rte_kni_rx_burst (kni (ws_port ws)) (NB_RXD M) ms] @
       concat (map (\<lambda>m. [Ev_work_space_tx_send m, Ev_net_stats_kni_tx]) ms) \<and>
     ((\<forall>t k n. length (rte_kni_rx_burst E t k n) \<le> n) \<longrightarrow> length ms \<le> NB_RXD M)"
  by (simp add: kni_send_def Let_def kni_send_loop_eq)

text \<open>Witness: three buffers are queued, the batch is two, two buffers are sent on.\<close>

theorem kni_send_order_witness:
  "(\<forall>t k n. length (rte_kni_rx_burst E_ok t k n) \<le> n) \<and>
   kni_send E_ok M16 \<lparr>ws_port = ports cfg_up ! 0\<rparr> [] =
     [Ev_rte_kni_handle_request (Some (handle ''kni0'' 5 100)) 0,
      Ev_rte_kni_rx_burst (Some (handle ''kni0'' 5 100)) 2 [21, 22],
      Ev_work_space_tx_send 21, Ev_net_stats_kni_tx,
      Ev_work_space_tx_send 22, Ev_net_stats_kni_tx]"
proof -
  have c: "\<forall>t k n. length (rte_kni_rx_burst E_ok t k n) \<le> n"
    by (simp add: E_ok_def split: option.split)
  from kni_send_order[of E_ok M16 "\<lparr>ws_port = ports cfg_up ! 0\<rparr>" "[]"] c
  obtain h ms where
    e: "kni_send E_ok M16 \<lparr>ws_port = ports cfg_up ! 0\<rparr> [] =
       [] @ [Ev_rte_kni_handle_request (kni (ws_port \<lparr>ws_port = ports cfg_up ! 0\<rparr>)) h,
             Ev_rte_kni_rx_burst (kni (ws_port \<lparr>ws_port = ports cfg_up ! 0\<rparr>)) (NB_RXD M16) ms] @
       concat (map (\<lambda>m. [Ev_work_space_tx_send m, Ev_net_stats_kni_tx]) ms)"
    and l: "length ms \<le> NB_RXD M16" by blast
  have "kni_send E_ok M16 \<lparr>ws_port = ports cfg_up ! 0\<rparr> [] =
     [Ev_rte_kni_handle_request (Some (handle ''kni0'' 5 100)) 0,
      Ev_rte_kni_rx_burst (Some (handle ''kni0'' 5 100)) 2 [21, 22],
      Ev_work_space_tx_send 21, Ev_net_stats_kni_tx,
      Ev_work_space_tx_send 22, Ev_net_stats_kni_tx]"
    by (simp add: scenario_defs eval_defs)
  with c show ?thesis by blast
qed

subsection \<open>C4: the three outcomes of \<open>kni_recv\<close>\<close>

text \<open>
  C4. A call of \<open>kni_recv\<close> with buffer \<open>m\<close> adds to the log
  \<^item> for a port without a handle: the release of \<open>m\<close> and one drop count, and no call
    into the kernel interface;
  \<^item> for a port with a handle whose queue takes the buffer: one \<open>rte_kni_tx_burst\<close> and
    one \<open>net_stats_kni_rx\<close>, and no release of \<open>m\<close>;
  \<^item> for a port with a handle whose queue does not take it: one \<open>rte_kni_tx_burst\<close>, no
    second attempt, then the release of \<open>m\<close> and one drop count.
\<close>

theorem kni_recv_outcomes:
  "(kni (ws_port ws) = None \<longrightarrow>
      kni_recv E ws m tr = tr @ [Ev_mbuf_free m, Ev_net_stats_drop]) \<and>
   (\<forall>k. kni (ws_port ws) = Some k \<and> rte_kni_tx_burst E tr k m = 1 \<longrightarrow>
      kni_recv E ws m tr = tr @ [Ev_rte_kni_tx_burst k m 1, Ev_net_stats_kni_rx]) \<and>
   (\<forall>k. kni (ws_port ws) = Some k \<and> rte_kni_tx_burst E tr k m \<noteq> 1 \<longrightarrow>
      kni_recv E ws m tr =
        tr @ [Ev_rte_kni_tx_burst k m (rte_kni_tx_burst E tr k m), Ev_mbuf_free m,
              Ev_net_stats_drop])"
  by (simp add: kni_recv_def mbuf_free2_def Let_def)

text \<open>Witness: one call for each of the three outcomes.\<close>

theorem kni_recv_outcomes_witness:
  "kni_recv E_ok \<lparr>ws_port = port5\<rparr> 7 [] = [Ev_mbuf_free 7, Ev_net_stats_drop] \<and>
   kni_recv E_ok \<lparr>ws_port = ports cfg_up ! 0\<rparr> 7 [] =
     [Ev_rte_kni_tx_burst (handle ''kni0'' 5 100) 7 1, Ev_net_stats_kni_rx] \<and>
   kni_recv E_queue_full \<lparr>ws_port = ports cfg_up ! 0\<rparr> 7 [] =
     [Ev_rte_kni_tx_burst (handle ''kni0'' 5 100) 7 0, Ev_mbuf_free 7, Ev_net_stats_drop]"
proof -
  have n: "kni (ws_port \<lparr>ws_port = port5\<rparr>) = None" by (simp add: port5_def)
  have k: "kni (ws_port \<lparr>ws_port = ports cfg_up ! 0\<rparr>) = Some (handle ''kni0'' 5 100)"
    by (simp add: cfg_up_def port5_def)
  have ok: "rte_kni_tx_burst E_ok [] (handle ''kni0'' 5 100) 7 = 1" by (simp add: E_ok_def)
  have full: "rte_kni_tx_burst E_queue_full [] (handle ''kni0'' 5 100) 7 = 0"
    by (simp add: E_queue_full_def E_ok_def)
  from kni_recv_outcomes[of "\<lparr>ws_port = port5\<rparr>" E_ok 7 "[]"] n
  have 1: "kni_recv E_ok \<lparr>ws_port = port5\<rparr> 7 [] = [Ev_mbuf_free 7, Ev_net_stats_drop]"
    by simp
  from kni_recv_outcomes[of "\<lparr>ws_port = ports cfg_up ! 0\<rparr>" E_ok 7 "[]"] k ok
  have 2: "kni_recv E_ok \<lparr>ws_port = ports cfg_up ! 0\<rparr> 7 [] =
     [Ev_rte_kni_tx_burst (handle ''kni0'' 5 100) 7 1, Ev_net_stats_kni_rx]" by simp
  from kni_recv_outcomes[of "\<lparr>ws_port = ports cfg_up ! 0\<rparr>" E_queue_full 7 "[]"] k full
  have 3: "kni_recv E_queue_full \<lparr>ws_port = ports cfg_up ! 0\<rparr> 7 [] =
     [Ev_rte_kni_tx_burst (handle ''kni0'' 5 100) 7 0, Ev_mbuf_free 7, Ev_net_stats_drop]"
    by simp
  from 1 2 3 show ?thesis by blast
qed

subsection \<open>C5: start stops at the first failure\<close>

text \<open>
  C5. On an enabled configuration, start first calls \<open>rte_kni_init\<close> and then makes the
  calls \<open>evs\<close>, such that
  \<^item> \<open>evs\<close>, the result and the ports afterwards are a run of the creation loop
    (\<open>create_run\<close>): port by port in list order the device-info (MTU bounds) query, the
    current-MTU query, the MAC query and \<open>rte_kni_alloc\<close> are made; the handle is attached
    when all but possibly the current-MTU query succeed; and the run ends with \<open>-1\<close> at
    the first failing device-info query, MAC query or allocation, leaving that port and
    all later ones as they were;
  \<^item> every call in \<open>evs\<close> records the answer the environment gives at that moment, so an
    environment in which one of these three calls fails makes start fail there;
  \<^item> the result is \<open>0\<close> or \<open>-1\<close>, and it is \<open>-1\<close> exactly when \<open>evs\<close> contains a failed
    device-info query, a failed MAC query or a refused \<open>rte_kni_alloc\<close>; a failed
    \<open>rte_eth_dev_get_mtu\<close> is none of these, so it never makes start fail;
  \<^item> such a failing call can only be the last call made: start stops at once;
  \<^item> when start fails, the failing call is about a port at some position \<open>j\<close>; the ports
    before \<open>j\<close> have their handles, the port at \<open>j\<close> and all later ports are exactly as
    they were, so nothing was attached to the failing port;
  \<^item> the current MTU of every handle attached to a port that had none is the value the
    current-MTU query stored, and zero when the query stored nothing.
\<close>

theorem kni_start_fails_fast:
  assumes "cfg_kni cfg" and "kni_start E M cfg tr = (r, cfg', tr')"
  shows "\<exists>evs. tr' = tr @ Ev_rte_kni_init (NETIF_PORT_MAX M) # evs \<and>
      create_run M cfg 0 (ports cfg) evs r (ports cfg') \<and>
      honest E (tr @ [Ev_rte_kni_init (NETIF_PORT_MAX M)]) evs \<and>
      cfg' = cfg\<lparr>ports := ports cfg'\<rparr> \<and>
      (r = 0 \<or> r = - 1) \<and>
      (r = - 1 \<longleftrightarrow> (\<exists>e\<in>set evs. start_failure e)) \<and>
      (\<forall>e\<in>set (butlast evs). \<not> start_failure e) \<and>
      (r = - 1 \<longrightarrow>
         (\<exists>j<length (ports cfg).
            (\<forall>i<j. kni (ports cfg' ! i) \<noteq> None) \<and>
            drop j (ports cfg') = drop j (ports cfg) \<and>
            evs \<noteq> [] \<and> event_port (last evs) = Some (port_id (ports cfg ! j)))) \<and>
      (\<forall>j h. j < length (ports cfg) \<and> kni (ports cfg ! j) = None \<and>
             kni (ports cfg' ! j) = Some h \<longrightarrow>
         (\<exists>g. Ev_rte_eth_dev_get_mtu (port_id (ports cfg ! j)) g \<in> set evs \<and>
              mtu (kni_conf h) = (case snd g of None \<Rightarrow> 0 | Some v \<Rightarrow> v)))"
proof -
  from kni_start_run[OF assms] obtain evs where
    tr': "tr' = tr @ Ev_rte_kni_init (NETIF_PORT_MAX M) # evs" and
    run: "create_run M cfg 0 (ports cfg) evs r (ports cfg')" and
    cfg': "cfg' = cfg\<lparr>ports := ports cfg'\<rparr>" by blast
  from kni_start_honest[OF assms] obtain es where
    es: "tr' = tr @ Ev_rte_kni_init (NETIF_PORT_MAX M) # es"
      "honest E (tr @ [Ev_rte_kni_init (NETIF_PORT_MAX M)]) es" by blast
  from tr' es(1) have "es = evs" by simp
  with es(2) have hon: "honest E (tr @ [Ev_rte_kni_init (NETIF_PORT_MAX M)]) evs" by simp
  note run
  moreover note hon
  moreover note cfg'
  moreover note create_run_result[OF run]
  moreover note create_run_failure_iff[OF run]
  moreover note create_run_failure_last[OF run]
  moreover have "r = - 1 \<longrightarrow>
         (\<exists>j<length (ports cfg).
            (\<forall>i<j. kni (ports cfg' ! i) \<noteq> None) \<and>
            drop j (ports cfg') = drop j (ports cfg) \<and>
            evs \<noteq> [] \<and> event_port (last evs) = Some (port_id (ports cfg ! j)))"
    using create_run_failing_port[OF run] by blast
  moreover have "\<forall>j h. j < length (ports cfg) \<and> kni (ports cfg ! j) = None \<and>
             kni (ports cfg' ! j) = Some h \<longrightarrow>
         (\<exists>g. Ev_rte_eth_dev_get_mtu (port_id (ports cfg ! j)) g \<in> set evs \<and>
              mtu (kni_conf h) = (case snd g of None \<Rightarrow> 0 | Some v \<Rightarrow> v))"
    using create_run_mtu[OF run] by blast
  ultimately show ?thesis using tr' by blast
qed

text \<open>
  Witness, one environment for each cause. When the device-info query fails, start makes
  that one query for the first port and returns \<open>-1\<close>. When the allocation is refused,
  start makes the four calls for the first port and returns \<open>-1\<close>. When the MAC query
  fails for the second port, start returns \<open>-1\<close> and the second port has no handle. In
  all three the ports that were reached last are as before. When only the current-MTU
  query fails, start returns \<open>0\<close>.
\<close>

theorem kni_start_fails_fast_witness:
  "fst (kni_start E_info_fails M16 cfg52 []) = - 1 \<and>
   create_run M16 cfg52 0 (ports cfg52)
     [Ev_rte_eth_dev_info_get 5 (- 19, \<lparr>di_min_mtu = 0, di_max_mtu = 0\<rparr>)]
     (- 1) (ports cfg52) \<and>
   map kni (ports (fst (snd (kni_start E_info_fails M16 cfg52 [])))) = [None, None] \<and>
   fst (kni_start E_alloc_fails M16 cfg52 []) = - 1 \<and>
   create_run M16 cfg52 0 (ports cfg52)
     [Ev_rte_eth_dev_info_get 5 (0, \<lparr>di_min_mtu = 68, di_max_mtu = 9000\<rparr>),
      Ev_rte_eth_dev_get_mtu 5 (0, Some 1500),
      Ev_rte_eth_macaddr_get 5 (0, [2, 0, 0, 0, 0, 1]),
      Ev_rte_kni_alloc 100 (kni_conf (handle ''kni0'' 5 100)) False]
     (- 1) (ports cfg52) \<and>
   map kni (ports (fst (snd (kni_start E_alloc_fails M16 cfg52 [])))) = [None, None] \<and>
   fst (kni_start E_mac_fails M16 cfg52 []) = - 1 \<and>
   (\<exists>e\<in>set (snd (snd (kni_start E_mac_fails M16 cfg52 []))). start_failure e) \<and>
   kni (ports (fst (snd (kni_start E_mac_fails M16 cfg52 []))) ! 1) = None \<and>
   fst (kni_start E_mtu_fails M16 cfg52 []) = 0 \<and>
   Ev_rte_eth_dev_get_mtu 5 (- 19, None) \<in> set (snd (snd (kni_start E_mtu_fails M16 cfg52 []))) \<and>
   \<not> (\<exists>e\<in>set (snd (snd (kni_start E_mtu_fails M16 cfg52 []))). start_failure e)"
proof -
  let ?info = "kni_start E_info_fails M16 cfg52 []"
  let ?alloc = "kni_start E_alloc_fails M16 cfg52 []"
  let ?bad = "kni_start E_mac_fails M16 cfg52 []"
  let ?good = "kni_start E_mtu_fails M16 cfg52 []"
  let ?ei = "[Ev_rte_eth_dev_info_get 5 (- 19, \<lparr>di_min_mtu = 0, di_max_mtu = 0\<rparr>)]"
  let ?ea = "[Ev_rte_eth_dev_info_get 5 (0, \<lparr>di_min_mtu = 68, di_max_mtu = 9000\<rparr>),
      Ev_rte_eth_dev_get_mtu 5 (0, Some 1500),
      Ev_rte_eth_macaddr_get 5 (0, [2, 0, 0, 0, 0, 1]),
      Ev_rte_kni_alloc 100 (kni_conf (handle ''kni0'' 5 100)) False]"
  have a: "cfg_kni cfg52" by (simp add: cfg52_def)
  have i: "?info = (fst ?info, fst (snd ?info), snd (snd ?info))"
    and al: "?alloc = (fst ?alloc, fst (snd ?alloc), snd (snd ?alloc))"
    and b: "?bad = (fst ?bad, fst (snd ?bad), snd (snd ?bad))"
    and g: "?good = (fst ?good, fst (snd ?good), snd (snd ?good))" by simp_all
  have ri: "fst ?info = - 1" and ra: "fst ?alloc = - 1"
    and rb: "fst ?bad = - 1" and rg: "fst ?good = 0"
    by (simp_all add: scenario_defs eval_defs)
  have ti: "snd (snd ?info) = Ev_rte_kni_init 4 # ?ei"
    and ta: "snd (snd ?alloc) = Ev_rte_kni_init 4 # ?ea"
    by (simp_all add: scenario_defs eval_defs)
  have pi: "ports (fst (snd ?info)) = ports cfg52"
    and pa: "ports (fst (snd ?alloc)) = ports cfg52"
    by (simp_all add: scenario_defs eval_defs)
  have ki: "map kni (ports cfg52) = [None, None]" by (simp add: scenario_defs)
  have p1: "kni (ports (fst (snd ?bad)) ! 1) = None"
    by (simp add: scenario_defs eval_defs)
  have m: "Ev_rte_eth_dev_get_mtu 5 (- 19, None) \<in> set (snd (snd ?good))"
    by (simp add: scenario_defs eval_defs)
  from kni_start_fails_fast[OF a i] obtain evs where
    "snd (snd ?info) = [] @ Ev_rte_kni_init (NETIF_PORT_MAX M16) # evs"
    "create_run M16 cfg52 0 (ports cfg52) evs (fst ?info) (ports (fst (snd ?info)))"
    by blast
  with ti ri pi have 1: "create_run M16 cfg52 0 (ports cfg52) ?ei (- 1) (ports cfg52)"
    by simp
  from kni_start_fails_fast[OF a al] obtain evs where
    "snd (snd ?alloc) = [] @ Ev_rte_kni_init (NETIF_PORT_MAX M16) # evs"
    "create_run M16 cfg52 0 (ports cfg52) evs (fst ?alloc) (ports (fst (snd ?alloc)))"
    by blast
  with ta ra pa have 2: "create_run M16 cfg52 0 (ports cfg52) ?ea (- 1) (ports cfg52)"
    by simp
  from kni_start_fails_fast[OF a b] rb
  have 3: "\<exists>e\<in>set (snd (snd ?bad)). start_failure e" by auto
  from kni_start_fails_fast[OF a g] rg
  have 4: "\<not> (\<exists>e\<in>set (snd (snd ?good)). start_failure e)"
    by (auto simp: start_failure_def)
  from 1 2 3 4 ri ra rb rg p1 m pi pa ki show ?thesis by simp
qed

subsection \<open>C6: the group id is the hardware id\<close>

text \<open>
  C6. Let start run on an enabled configuration whose ports carry no handle yet. Every
  handle it attaches, at whatever position \<open>j\<close> of the list, has the hardware id of the
  port at \<open>j\<close> as its group id, and start leaves the hardware id of the port as it was.
  The only other function of kni.c that assigns to \<open>port->kni\<close> is \<open>kni_free\<close>: a later
  stop removes the handle from the port and does not put another in its place.
\<close>

theorem kni_start_group_id:
  assumes "cfg_kni cfg" and "kni_start E M cfg tr = (r, cfg', tr')"
    and "\<forall>p\<in>set (ports cfg). kni p = None"
    and "j < length (ports cfg)"
    and "kni (ports cfg' ! j) = Some h"
  shows "group_id (kni_conf h) = port_id (ports cfg ! j) \<and>
         port_id (ports cfg' ! j) = port_id (ports cfg ! j) \<and>
         kni (ports (fst (kni_stop E2 cfg' tr2)) ! j) = None"
proof -
  from kni_start_run[OF assms(1,2)] obtain evs where
    run: "create_run M cfg 0 (ports cfg) evs r (ports cfg')" and
    cfg': "cfg' = cfg\<lparr>ports := ports cfg'\<rparr>" by blast
  have "cfg_kni (cfg\<lparr>ports := ports cfg'\<rparr>)" using assms(1) by simp
  with cfg' have en: "cfg_kni cfg'" by simp
  from create_run_length[OF run] assms(4) have j: "j < length (ports cfg')" by simp
  obtain c3 t3 where s: "kni_stop E2 cfg' tr2 = (c3, t3)" by (cases "kni_stop E2 cfg' tr2")
  then obtain ps3 where
    l: "kni_free_loop E2 (ports cfg') tr2 = (ps3, t3)" "c3 = cfg'\<lparr>ports := ps3\<rparr>"
    using en by (auto simp: kni_stop_def kni_free_def split: prod.splits)
  from kni_free_loop_spec[OF l(1)] have "ps3 = map (\<lambda>p. p\<lparr>kni := None\<rparr>) (ports cfg')"
    by simp
  with l(2) s j have "kni (ports (fst (kni_stop E2 cfg' tr2)) ! j) = None" by simp
  with kni_start_handles[OF assms] show ?thesis by simp
qed

text \<open>
  Witness: two ports with the hardware ids 5 and 2 and the prefix \<open>kni\<close> get the group
  ids 5 and 2 under the names \<open>kni0\<close> and \<open>kni1\<close>.
\<close>

theorem kni_start_group_id_witness:
  "map port_id (ports cfg52) = [5, 2] \<and>
   map (map_option (group_id \<circ> kni_conf) \<circ> kni) (ports (fst (snd (kni_start E_ok M16 cfg52 []))))
     = [Some 5, Some 2] \<and>
   map (map_option (name \<circ> kni_conf) \<circ> kni) (ports (fst (snd (kni_start E_ok M16 cfg52 []))))
     = [Some ''kni0'', Some ''kni1'']"
proof -
  let ?res = "kni_start E_ok M16 cfg52 []"
  let ?ps = "ports (fst (snd ?res))"
  have a: "cfg_kni cfg52" by (simp add: cfg52_def)
  have b: "?res = (fst ?res, fst (snd ?res), snd (snd ?res))" by simp
  have c: "\<forall>p\<in>set (ports cfg52). kni p = None" by (simp add: scenario_defs)
  have j0: "0 < length (ports cfg52)" and j1: "1 < length (ports cfg52)"
    by (simp_all add: cfg52_def)
  have ids: "map port_id (ports cfg52) = [5, 2]" by (simp add: scenario_defs)
  have id0: "port_id (ports cfg52 ! 0) = 5" and id1: "port_id (ports cfg52 ! 1) = 2"
    by (simp_all add: scenario_defs)
  have names: "map (map_option (name \<circ> kni_conf) \<circ> kni) ?ps = [Some ''kni0'', Some ''kni1'']"
    by (simp add: scenario_defs eval_defs)
  then obtain p0 p1 h0 h1 where ps: "?ps = [p0, p1]" and h: "kni p0 = Some h0" "kni p1 = Some h1"
    by auto
  from ps h have k0: "kni (?ps ! 0) = Some h0" and k1: "kni (?ps ! 1) = Some h1" by simp_all
  from kni_start_group_id[OF a b c j0 k0] id0 have "group_id (kni_conf h0) = 5" by simp
  moreover from kni_start_group_id[OF a b c j1 k1] id1 have "group_id (kni_conf h1) = 2" by simp
  ultimately have "map (map_option (group_id \<circ> kni_conf) \<circ> kni) ?ps = [Some 5, Some 2]"
    using ps h by simp
  with ids names show ?thesis by blast
qed

subsection \<open>C7: names that do not fit\<close>

text \<open>
  Counterexample to C7 as stated. With a name buffer of 16 bytes and a 15-character
  prefix, prefix and ordinal need 16 characters. Start succeeds all the same, and both
  ports get the same 15-character name: the ordinal is silently dropped.
\<close>

theorem kni_start_truncated_name_succeeds:
  "RTE_KNI_NAMESIZE M16 - 1 < length (kni_ifname cfg_long @ ''0'') \<and>
   fst (kni_start E_ok M16 cfg_long []) = 0 \<and>
   map (map_option (name \<circ> kni_conf) \<circ> kni) (ports (fst (snd (kni_start E_ok M16 cfg_long []))))
     = [Some ''dperf-kni-port-'', Some ''dperf-kni-port-'']"
  by (simp add: scenario_defs eval_defs)

text \<open>
  C7, amended. Let start run on an enabled configuration whose ports carry no handle yet.
  Every handle it attaches at a position \<open>j\<close> is named by the first
  \<open>RTE_KNI_NAMESIZE - 1\<close> characters of the prefix followed by the decimal digits of
  \<open>j\<close>: a name that fits is kept whole, a longer one is cut, and neither is an error.
  When start does fail, one of its calls failed: a device-info query, a MAC query or
  \<open>rte_kni_alloc\<close>.
\<close>

theorem kni_start_name_truncated:
  assumes "cfg_kni cfg" and "kni_start E M cfg tr = (r, cfg', tr')"
    and "\<forall>p\<in>set (ports cfg). kni p = None"
  shows "(\<forall>j h. j < length (ports cfg) \<and> kni (ports cfg' ! j) = Some h \<longrightarrow>
            name (kni_conf h) = take (RTE_KNI_NAMESIZE M - 1) (kni_ifname cfg @ dec_digits j)) \<and>
         (r \<noteq> 0 \<longrightarrow> (\<exists>evs. tr' = tr @ evs \<and> (\<exists>e\<in>set evs. start_failure e)))"
proof -
  from kni_start_run[OF assms(1,2)] obtain evs where
    tr': "tr' = tr @ Ev_rte_kni_init (NETIF_PORT_MAX M) # evs" and
    run: "create_run M cfg 0 (ports cfg) evs r (ports cfg')" by blast
  have "name (kni_conf h) = take (RTE_KNI_NAMESIZE M - 1) (kni_ifname cfg @ dec_digits j)"
    if "j < length (ports cfg)" "kni (ports cfg' ! j) = Some h" for j h
    using kni_start_handles[OF assms that] by (simp add: kni_set_name_take)
  moreover have "\<exists>es. tr' = tr @ es \<and> (\<exists>e\<in>set es. start_failure e)" if "r \<noteq> 0"
  proof -
    from create_run_result[OF run] that have "r = - 1" by simp
    with create_run_failure_iff[OF run] obtain e where "e \<in> set evs" "start_failure e"
      by blast
    with tr' show ?thesis
      by (intro exI[of _ "Ev_rte_kni_init (NETIF_PORT_MAX M) # evs"]) auto
  qed
  ultimately show ?thesis by blast
qed

text \<open>
  Witness: the 16 characters of \<open>dperf-kni-port-1\<close> are cut to the 15 of the prefix.
\<close>

theorem kni_start_name_truncated_witness:
  "length (kni_ifname cfg_long @ dec_digits 1) = 16 \<and>
   map_option (name \<circ> kni_conf) (kni (ports (fst (snd (kni_start E_ok M16 cfg_long []))) ! 1))
     = Some ''dperf-kni-port-''"
proof -
  let ?res = "kni_start E_ok M16 cfg_long []"
  have a: "cfg_kni cfg_long" by (simp add: cfg_long_def)
  have b: "?res = (fst ?res, fst (snd ?res), snd (snd ?res))" by simp
  have c: "\<forall>p\<in>set (ports cfg_long). kni p = None" by (simp add: scenario_defs)
  have t: "take (RTE_KNI_NAMESIZE M16 - 1) (kni_ifname cfg_long @ dec_digits 1)
      = ''dperf-kni-port-''"
    by (simp add: dec_digits_1 cfg_long_def M16_def)
  have l: "(1::nat) < length (ports cfg_long)" by (simp add: cfg_long_def)
  have len: "length (kni_ifname cfg_long @ dec_digits 1) = 16"
    by (simp add: dec_digits_1 cfg_long_def)
  have "kni (ports (fst (snd ?res)) ! 1) \<noteq> None" by (simp add: scenario_defs eval_defs)
  then obtain h where h: "kni (ports (fst (snd ?res)) ! 1) = Some h" by blast
  from kni_start_name_truncated[OF a b c]
  have "\<forall>j h. j < length (ports cfg_long) \<and> kni (ports (fst (snd ?res)) ! j) = Some h \<longrightarrow>
      name (kni_conf h) = take (RTE_KNI_NAMESIZE M16 - 1) (kni_ifname cfg_long @ dec_digits j)"
    by (rule conjunct1)
  with l h t have "name (kni_conf h) = ''dperf-kni-port-''" by metis
  with h len show ?thesis by simp
qed

subsection \<open>C8: stop visits every port\<close>

text \<open>
  C8. On an enabled configuration, stop leaves every port without a handle and changes
  nothing else about the ports. The log it adds consists, for the handles that were
  attached and in the order of their ports, of one release call each, followed by the
  message \<open>failed to free kni\<close> when that call returned non-zero. This holds whatever
  the release calls return, so a failed release neither ends the loop nor keeps the
  handle on its port, and a port without a handle causes no call.
\<close>

theorem kni_stop_best_effort:
  assumes "cfg_kni cfg" and "kni_stop E cfg tr = (cfg', tr')"
  shows "ports cfg' = map (\<lambda>p. p\<lparr>kni := None\<rparr>) (ports cfg) \<and>
     (\<exists>rs. length rs = length (List.map_filter kni (ports cfg)) \<and>
        tr' = tr @ concat (map2 release_events (List.map_filter kni (ports cfg)) rs))"
proof -
  from assms obtain ps' where
    l: "kni_free_loop E (ports cfg) tr = (ps', tr')" "cfg' = cfg\<lparr>ports := ps'\<rparr>"
    by (auto simp: kni_stop_def kni_free_def split: prod.splits)
  from kni_free_loop_spec[OF l(1)] l(2) show ?thesis by simp
qed

text \<open>
  Witness: three ports, the middle one without a handle; the first release fails and is
  logged, the last handle is released all the same, and no port keeps a handle.
\<close>

theorem kni_stop_best_effort_witness:
  "map kni (ports (fst (kni_stop E_release_fails cfg_mixed []))) = [None, None, None] \<and>
   snd (kni_stop E_release_fails cfg_mixed []) =
     [Ev_rte_kni_release (handle ''kni0'' 5 100) (- 1), Ev_printf ''failed to free kni\<newline>'',
      Ev_rte_kni_release (handle ''kni2'' 2 200) 0]"
proof -
  let ?res = "kni_stop E_release_fails cfg_mixed []"
  have a: "cfg_kni cfg_mixed" by (simp add: cfg_mixed_def)
  have b: "?res = (fst ?res, snd ?res)" by simp
  from kni_stop_best_effort[OF a b]
  have "ports (fst ?res) = map (\<lambda>p. p\<lparr>kni := None\<rparr>) (ports cfg_mixed)" by blast
  then have "map kni (ports (fst ?res)) = [None, None, None]" by (simp add: cfg_mixed_def)
  moreover have "snd ?res =
     [Ev_rte_kni_release (handle ''kni0'' 5 100) (- 1), Ev_printf ''failed to free kni\<newline>'',
      Ev_rte_kni_release (handle ''kni2'' 2 200) 0]"
    by (simp add: scenario_defs eval_defs)
  ultimately show ?thesis by blast
qed

subsection \<open>C9: link activation stops at the first failure\<close>

text \<open>
  Counterexample to C9 as stated. Closing the channel is one of the steps, and here every
  \<open>close\<close> fails; link activation goes on to the second port and returns \<open>0\<close>. The
  result of \<open>close\<close> is not looked at.
\<close>

theorem kni_link_up_close_failure_ignored:
  "kni_link_up E_close_fails M16 cfg_up [] =
     (0, [Ev_socket 3, Ev_ioctl_SIOCGIFFLAGS 3 ''kni0'' (0, 0x1002),
          Ev_ioctl_SIOCSIFFLAGS 3 ''kni0'' 0x1003 0, Ev_close 3 (- 1),
          Ev_socket 3, Ev_ioctl_SIOCGIFFLAGS 3 ''kni1'' (0, 0x1002),
          Ev_ioctl_SIOCSIFFLAGS 3 ''kni1'' 0x1003 0, Ev_close 3 (- 1)])"
  by (simp add: scenario_defs eval_defs)

text \<open>
  C9, amended. Link activation visits the ports in list order. A port without a handle
  is passed over as a success. For a port with a handle it opens a channel, reads the
  flags, writes them back with the administratively-up flag set, and closes the channel.
  If opening the channel, reading the flags or writing the flags fails for a port, it
  returns \<open>-1\<close> without visiting the remaining ports (the channel, once open, is still
  closed); otherwise it returns \<open>0\<close> after the last port. The result of closing the
  channel is ignored. In the terms of the theory: the calls made are a run of
  \<open>link_up_run\<close> with the returned result.
\<close>

theorem kni_link_up_stops_at_failure:
  assumes "kni_link_up E M cfg tr = (r, tr')"
  shows "\<exists>evs. tr' = tr @ evs \<and> link_up_run M cfg 0 (ports cfg) evs r"
  using assms kni_link_up_loop_run by (simp add: kni_link_up_def)

text \<open>
  Witness: the second \<open>socket\<close> call fails; the first port is brought up, the second
  ends the run with \<open>-1\<close>.
\<close>

theorem kni_link_up_stops_at_failure_witness:
  "kni_link_up E_socket_once M16 cfg_up [] =
     (- 1, [Ev_socket 3, Ev_ioctl_SIOCGIFFLAGS 3 ''kni0'' (0, 0x1002),
            Ev_ioctl_SIOCSIFFLAGS 3 ''kni0'' 0x1003 0, Ev_close 3 0, Ev_socket (- 1)]) \<and>
   link_up_run M16 cfg_up 0 (ports cfg_up)
     [Ev_socket 3, Ev_ioctl_SIOCGIFFLAGS 3 ''kni0'' (0, 0x1002),
      Ev_ioctl_SIOCSIFFLAGS 3 ''kni0'' 0x1003 0, Ev_close 3 0, Ev_socket (- 1)] (- 1)"
proof -
  have h: "kni_link_up E_socket_once M16 cfg_up [] =
     (- 1, [Ev_socket 3, Ev_ioctl_SIOCGIFFLAGS 3 ''kni0'' (0, 0x1002),
            Ev_ioctl_SIOCSIFFLAGS 3 ''kni0'' 0x1003 0, Ev_close 3 0, Ev_socket (- 1)])"
    by (simp add: scenario_defs eval_defs)
  from kni_link_up_stops_at_failure[OF h] h show ?thesis by simp
qed

subsection \<open>C10: the channel is closed exactly once\<close>

text \<open>
  C10. In every execution of the link-up step for one port, the descriptors closed are
  exactly the descriptors that \<open>socket\<close> opened successfully, in number at most one; and
  when a descriptor was opened, closing it is the last call of the step. So on the
  success path and on both failure paths the open channel is closed once, and nothing is
  closed when no channel was opened.
\<close>

theorem kni_set_link_up_closes_once:
  assumes "kni_set_link_up E M cfg pos p tr = (r, tr')"
  shows "\<exists>evs. tr' = tr @ evs \<and>
     List.map_filter closed evs = List.map_filter opened evs \<and>
     length (List.map_filter opened evs) \<le> 1 \<and>
     (\<forall>fd. List.map_filter opened evs = [fd] \<longrightarrow> (\<exists>c. last evs = Ev_close fd c))"
  using assms
  by (cases rule: kni_set_link_up_cases)
    (simp_all add: List.map_filter_simps opened_def closed_def)

text \<open>Witness: reading the flags fails; descriptor 3 was opened and is closed.\<close>

theorem kni_set_link_up_closes_once_witness:
  "fst (kni_set_link_up E_get_fails M16 cfg_up 0 (ports cfg_up ! 0) []) = - 1 \<and>
   List.map_filter opened (snd (kni_set_link_up E_get_fails M16 cfg_up 0 (ports cfg_up ! 0) []))
     = [3] \<and>
   List.map_filter closed (snd (kni_set_link_up E_get_fails M16 cfg_up 0 (ports cfg_up ! 0) []))
     = [3]"
proof -
  let ?res = "kni_set_link_up E_get_fails M16 cfg_up 0 (ports cfg_up ! 0) []"
  have b: "?res = (fst ?res, snd ?res)" by simp
  have r: "fst ?res = - 1" by (simp add: scenario_defs eval_defs)
  have o: "List.map_filter opened (snd ?res) = [3]"
    by (simp add: scenario_defs eval_defs List.map_filter_simps opened_def)
  from kni_set_link_up_closes_once[OF b]
  have "List.map_filter closed (snd ?res) = List.map_filter opened (snd ?res)" by auto
  with r o show ?thesis by simp
qed

end
